theory Spec2Isabelle
  imports Complex_Main "HOL-Library.AList" "HOL-Library.Sublist"
begin

text \<open>
  A model of the Blinko tool server: the client of the remote note service and the handler
  that dispatches a tool call to it. An asynchronous operation is a function that returns
  the requests it sent together with its result or the error it threw; the remote service
  and the language runtime are parameters.
\<close>

section \<open>JavaScript values and the coercions the dispatcher applies\<close>

text \<open>
  The tool arguments reach the dispatcher as an untyped bag of values decoded from JSON.
  A number is an IEEE double: \<open>NaN\<close>, the two infinities, or a finite value. Every finite
  double is a rational, so the finite values are embedded in \<^typ>\<open>rat\<close>; the two zeros of
  the doubles coincide there, and the program never tells them apart (both are falsy, both
  are \<open>=== 0\<close>, both print as \<open>0\<close>).
\<close>

datatype jsnum = NaN | PosInf | NegInf | Fin rat

datatype jsval =
    Undefined
  | Null
  | Bool bool
  | Num jsnum
  | Str string
  | Arr "jsval list"
  | Obj "(string \<times> jsval) list"

text \<open>
  The shapes the client declares for what the remote service returns. A field the
  interface marks optional or nullable is an \<open>option\<close>.
\<close>

record Note =
  n_id :: jsnum
  n_type :: jsnum
  n_content :: string
  n_isArchived :: bool
  n_isRecycle :: bool
  n_isShare :: bool
  n_isTop :: bool
  n_isReviewed :: bool
  n_sharePassword :: "string option"
  n_shareEncryptedUrl :: "string option"
  n_createdAt :: string
  n_updatedAt :: string

record ShareNoteResult =
  r_id :: jsnum
  r_isShare :: bool
  r_sharePassword :: "string option"
  r_shareEncryptedUrl :: "string option"

text \<open>
  What the language runtime computes and the program only calls: the parsing of a string
  as a number (\<open>StringToNumber\<close>), the printing of a number that is not a safe integer,
  the parsing of a date string (\<open>None\<close> is the time value \<open>NaN\<close>), the locale's rendering
  of a valid time value, and the decoding of a response body by \<open>resp.json()\<close> at the
  type the client declares for it (\<open>None\<close> when the body is not JSON). They are parameters
  of the model.
\<close>

record runtime =
  StringToNumber :: "string \<Rightarrow> jsnum"
  NumberToString :: "rat \<Rightarrow> string"
  DateParse :: "string \<Rightarrow> rat option"
  TimeToLocaleString :: "rat \<Rightarrow> string"
  json_notes :: "string \<Rightarrow> Note list option"
  json_note :: "string \<Rightarrow> Note option"
  json_share :: "string \<Rightarrow> ShareNoteResult option"

subsection \<open>Printing numbers\<close>

definition digit_char :: "nat \<Rightarrow> char" where
  "digit_char d = ''0123456789'' ! d"

fun show_nat :: "nat \<Rightarrow> string" where
  "show_nat n = (if n < 10 then [digit_char n] else show_nat (n div 10) @ [digit_char (n mod 10)])"

declare show_nat.simps [simp del]

definition show_int :: "int \<Rightarrow> string" where
  "show_int i = (if i < 0 then CHR ''-'' # show_nat (nat (- i)) else show_nat (nat i))"

text \<open>
  \<open>Number::toString\<close>: an integer of magnitude at most \<open>2^53\<close> prints as its decimal digits;
  any other finite value is printed by the runtime.
\<close>

definition is_safe_int :: "rat \<Rightarrow> bool" where
  "is_safe_int q \<longleftrightarrow> of_int \<lfloor>q\<rfloor> = q \<and> \<bar>q\<bar> \<le> 9007199254740992"

definition num_to_string :: "runtime \<Rightarrow> jsnum \<Rightarrow> string" where
  "num_to_string rt n =
     (case n of
        NaN \<Rightarrow> ''NaN''
      | PosInf \<Rightarrow> ''Infinity''
      | NegInf \<Rightarrow> ''-Infinity''
      | Fin q \<Rightarrow> if is_safe_int q then show_int \<lfloor>q\<rfloor> else NumberToString rt q)"

subsection \<open>Errors\<close>

text \<open>
  What the program can throw: an \<open>Error\<close> it constructs with a message, the \<open>TypeError\<close> of
  a coercion that cannot convert an object to a primitive value, the rejection of \<open>fetch\<close>
  when the transport fails, and the \<open>SyntaxError\<close> of \<open>resp.json()\<close> for a body that is not
  JSON.
\<close>

datatype error =
    Error string
  | TypeError
  | TransportError
  | SyntaxError

subsection \<open>\<open>String(v)\<close>, \<open>Number(v)\<close>, \<open>Boolean(v)\<close>\<close>

fun join_comma :: "string list \<Rightarrow> string" where
  "join_comma [] = []"
| "join_comma [s] = s"
| "join_comma (s # t # ss) = s @ '','' @ join_comma (t # ss)"

text \<open>The results of a list of conversions, or the first error among them.\<close>

fun collect :: "(error + 'a) list \<Rightarrow> error + 'a list" where
  "collect [] = Inr []"
| "collect (r # rs) =
     (case r of
        Inl e \<Rightarrow> Inl e
      | Inr x \<Rightarrow> (case collect rs of Inl e \<Rightarrow> Inl e | Inr xs \<Rightarrow> Inr (x # xs)))"

text \<open>
  \<open>String(v)\<close>. An object decoded from JSON has no callable property of its own. It is
  converted by the inherited \<open>toString\<close>, which prints \<open>[object Object]\<close>, unless it has a key
  \<open>toString\<close> of its own: that value is not callable, the inherited \<open>valueOf\<close> returns the
  object itself, and the conversion throws a \<open>TypeError\<close>. An array prints as its elements
  joined by commas, \<open>undefined\<close> and \<open>null\<close> elements as the empty string, and throws when
  the conversion of an element throws.
\<close>

fun js_String :: "runtime \<Rightarrow> jsval \<Rightarrow> error + string" where
  "js_String rt Undefined = Inr ''undefined''"
| "js_String rt Null = Inr ''null''"
| "js_String rt (Bool b) = Inr (if b then ''true'' else ''false'')"
| "js_String rt (Num n) = Inr (num_to_string rt n)"
| "js_String rt (Str s) = Inr s"
| "js_String rt (Arr xs) =
     (case collect (map (\<lambda>x. if x = Undefined \<or> x = Null then Inr [] else js_String rt x) xs) of
        Inl e \<Rightarrow> Inl e
      | Inr ss \<Rightarrow> Inr (join_comma ss))"
| "js_String rt (Obj kvs) =
     (if ''toString'' \<in> set (map fst kvs) then Inl TypeError else Inr ''[object Object]'')"

text \<open>
  \<open>Number(v)\<close>. Arrays and objects go through their string form, and throw where that
  throws: for an object with a key \<open>toString\<close> of its own the inherited \<open>valueOf\<close> returns the
  object and its \<open>toString\<close> is not callable.
\<close>

definition js_Number :: "runtime \<Rightarrow> jsval \<Rightarrow> error + jsnum" where
  "js_Number rt v =
     (case v of
        Undefined \<Rightarrow> Inr NaN
      | Null \<Rightarrow> Inr (Fin 0)
      | Bool b \<Rightarrow> Inr (if b then Fin 1 else Fin 0)
      | Num n \<Rightarrow> Inr n
      | Str s \<Rightarrow> Inr (StringToNumber rt s)
      | Arr xs \<Rightarrow> (case js_String rt (Arr xs) of
                    Inl e \<Rightarrow> Inl e
                  | Inr s \<Rightarrow> Inr (StringToNumber rt s))
      | Obj kvs \<Rightarrow> (case js_String rt (Obj kvs) of
                     Inl e \<Rightarrow> Inl e
                   | Inr s \<Rightarrow> Inr (StringToNumber rt s)))"

text \<open>Truthiness of a number (\<open>!n\<close> is its negation): zero and \<open>NaN\<close> are falsy.\<close>

definition num_truthy :: "jsnum \<Rightarrow> bool" where
  "num_truthy n \<longleftrightarrow> n \<noteq> NaN \<and> n \<noteq> Fin 0"

definition isNaN :: "jsnum \<Rightarrow> bool" where
  "isNaN n \<longleftrightarrow> n = NaN"

text \<open>
  \<open>Boolean(v)\<close>, which is also the truthiness of \<open>v\<close> in a condition. It converts nothing
  and never throws.
\<close>

definition js_Boolean :: "jsval \<Rightarrow> bool" where
  "js_Boolean v =
     (case v of
        Undefined \<Rightarrow> False
      | Null \<Rightarrow> False
      | Bool b \<Rightarrow> b
      | Num n \<Rightarrow> num_truthy n
      | Str s \<Rightarrow> s \<noteq> []
      | Arr xs \<Rightarrow> True
      | Obj kvs \<Rightarrow> True)"

text \<open>A number is finite when it is neither \<open>NaN\<close> nor an infinity.\<close>

definition is_finite :: "jsnum \<Rightarrow> bool" where
  "is_finite n = (case n of Fin q \<Rightarrow> True | _ \<Rightarrow> False)"

subsection \<open>Objects and their JSON form\<close>

text \<open>
  An object is the list of its keys with their values, in insertion order, each key once.
  Property read: a missing key reads as \<open>undefined\<close>.
\<close>

definition get_prop :: "(string \<times> jsval) list \<Rightarrow> string \<Rightarrow> jsval" where
  "get_prop kvs k = (case map_of kvs k of None \<Rightarrow> Undefined | Some v \<Rightarrow> v)"

text \<open>
  \<open>{...base, ...extra}\<close>: the keys of \<open>extra\<close> are assigned one by one; a key already
  present keeps its place and takes the new value.
\<close>

definition spread :: "(string \<times> jsval) list \<Rightarrow> (string \<times> jsval) list \<Rightarrow> (string \<times> jsval) list" where
  "spread base extra = fold (\<lambda>(k, v). AList.update k v) extra base"

text \<open>
  What \<open>JSON.stringify\<close> writes for a value: a non-finite number becomes \<open>null\<close>, an
  \<open>undefined\<close> array element becomes \<open>null\<close>, and an object key whose value is \<open>undefined\<close>
  is left out. The text itself is the serialiser's business; the model keeps the value.
\<close>

fun to_json :: "jsval \<Rightarrow> jsval"
  and to_json_fields :: "(string \<times> jsval) list \<Rightarrow> (string \<times> jsval) list"
where
  "to_json Undefined = Undefined"
| "to_json Null = Null"
| "to_json (Bool b) = Bool b"
| "to_json (Num n) = (if is_finite n then Num n else Null)"
| "to_json (Str s) = Str s"
| "to_json (Arr xs) = Arr (map (\<lambda>x. if x = Undefined then Null else to_json x) xs)"
| "to_json (Obj kvs) = Obj (to_json_fields kvs)"
| "to_json_fields [] = []"
| "to_json_fields ((k, v) # kvs) =
     (if v = Undefined then to_json_fields kvs else (k, to_json v) # to_json_fields kvs)"

section \<open>The remote note client\<close>

record BlinkoClient =
  baseUrl :: string
  apiKey :: string

text \<open>\<open>domain.replace(/\/$/, '')\<close>: one slash at the very end of the string is removed.\<close>

definition strip_trailing_slash :: "string \<Rightarrow> string" where
  "strip_trailing_slash d = (if d \<noteq> [] \<and> last d = CHR ''/'' then butlast d else d)"

definition startsWith :: "string \<Rightarrow> string \<Rightarrow> bool" where
  "startsWith s p \<longleftrightarrow> prefix p s"

definition normalizeDomain :: "string \<Rightarrow> error + string" where
  "normalizeDomain domain =
     (if domain = [] then Inl (Error ''Domain cannot be empty'')
      else
        let domain = strip_trailing_slash domain in
        if startsWith domain ''http://'' \<or> startsWith domain ''https://'' then Inr domain
        else Inr (''https://'' @ domain))"

definition new_BlinkoClient :: "string \<Rightarrow> string \<Rightarrow> error + BlinkoClient" where
  "new_BlinkoClient domain key =
     (case normalizeDomain domain of
        Inl e \<Rightarrow> Inl e
      | Inr url \<Rightarrow> Inr \<lparr>baseUrl = url, apiKey = key\<rparr>)"

subsection \<open>The transport\<close>

record http_request =
  req_method :: string
  req_url :: string
  req_headers :: "(string \<times> string) list"
  req_body :: "jsval option"

record http_response =
  status :: nat
  resp_text :: string

text \<open>
  \<open>fetch\<close>: the remote service's answer to a request, \<open>None\<close> when the transport fails.
  Every operation returns the requests it issued, in order, with its outcome.
\<close>

type_synonym fetch = "http_request \<Rightarrow> http_response option"

type_synonym 'a outcome = "http_request list \<times> (error + 'a)"

text \<open>\<open>resp.ok\<close>: the status is in the range 200 to 299.\<close>

definition ok :: "http_response \<Rightarrow> bool" where
  "ok resp \<longleftrightarrow> 200 \<le> status resp \<and> status resp \<le> 299"

text \<open>\<open>a ?? b\<close>\<close>

definition nullish :: "jsval \<Rightarrow> jsval \<Rightarrow> jsval" where
  "nullish a b = (if a = Undefined \<or> a = Null then b else a)"

text \<open>The error an operation throws for a response that is not \<open>ok\<close>.\<close>

definition request_failed :: "http_response \<Rightarrow> error" where
  "request_failed resp =
     Error (''request failed with status '' @ show_nat (status resp) @ '': '' @ resp_text resp)"

subsection \<open>Operations\<close>

record SearchNotesParams =
  p_size :: jsval
  p_type :: jsval
  p_isArchived :: jsval
  p_isRecycle :: jsval
  p_searchText :: string
  p_isUseAiQuery :: jsval
  p_startDate :: jsval
  p_endDate :: jsval
  p_hasTodo :: jsval

text \<open>
  Each operation builds one request and awaits its response. The request an operation
  builds is named apart from the operation, so that statements can speak of it.
\<close>

definition searchNotes_request :: "BlinkoClient \<Rightarrow> SearchNotesParams \<Rightarrow> http_request" where
  "searchNotes_request c params =
     (let apiUrl = baseUrl c @ ''/api/v1/note/list'' in
      \<lparr>req_method = ''POST'', req_url = apiUrl,
       req_headers = [(''Content-Type'', ''application/json''),
                      (''Authorization'', ''Bearer '' @ apiKey c)],
       req_body = Some (to_json (Obj
         [(''size'', nullish (p_size params) (Num (Fin 5))),
          (''type'', nullish (p_type params) (Num (Fin (- 1)))),
          (''isArchived'', nullish (p_isArchived params) (Bool False)),
          (''isRecycle'', nullish (p_isRecycle params) (Bool False)),
          (''searchText'', Str (p_searchText params)),
          (''isUseAiQuery'', nullish (p_isUseAiQuery params) (Bool True)),
          (''startDate'', nullish (p_startDate params) Null),
          (''endDate'', nullish (p_endDate params) Null),
          (''hasTodo'', nullish (p_hasTodo params) (Bool False))]))\<rparr>)"

definition searchNotes :: "runtime \<Rightarrow> fetch \<Rightarrow> BlinkoClient \<Rightarrow> SearchNotesParams \<Rightarrow> Note list outcome" where
  "searchNotes rt fetch c params =
     (let req = searchNotes_request c params
      in case fetch req of
           None \<Rightarrow> ([req], Inl TransportError)
         | Some resp \<Rightarrow>
             if \<not> ok resp then ([req], Inl (request_failed resp))
             else (case json_notes rt (resp_text resp) of
                     None \<Rightarrow> ([req], Inl SyntaxError)
                   | Some notes \<Rightarrow> ([req], Inr notes)))"

definition getDailyReviewNotes_request :: "BlinkoClient \<Rightarrow> http_request" where
  "getDailyReviewNotes_request c =
     (let apiUrl = baseUrl c @ ''/api/v1/note/daily-review-list'' in
      \<lparr>req_method = ''GET'', req_url = apiUrl,
       req_headers = [(''Authorization'', ''Bearer '' @ apiKey c)],
       req_body = None\<rparr>)"

definition getDailyReviewNotes :: "runtime \<Rightarrow> fetch \<Rightarrow> BlinkoClient \<Rightarrow> Note list outcome" where
  "getDailyReviewNotes rt fetch c =
     (let req = getDailyReviewNotes_request c
      in case fetch req of
           None \<Rightarrow> ([req], Inl TransportError)
         | Some resp \<Rightarrow>
             if \<not> ok resp then ([req], Inl (request_failed resp))
             else (case json_notes rt (resp_text resp) of
                     None \<Rightarrow> ([req], Inl SyntaxError)
                   | Some notes \<Rightarrow> ([req], Inr notes)))"

text \<open>The result \<open>{ success: boolean }\<close> of the mutating operations is its one field.\<close>

definition clearRecycleBin_request :: "BlinkoClient \<Rightarrow> http_request" where
  "clearRecycleBin_request c =
     (let apiUrl = baseUrl c @ ''/api/v1/note/clear-recycle-bin'' in
      \<lparr>req_method = ''POST'', req_url = apiUrl,
       req_headers = [(''Authorization'', ''Bearer '' @ apiKey c)],
       req_body = None\<rparr>)"

definition clearRecycleBin :: "fetch \<Rightarrow> BlinkoClient \<Rightarrow> bool outcome" where
  "clearRecycleBin fetch c =
     (let req = clearRecycleBin_request c
      in case fetch req of
           None \<Rightarrow> ([req], Inl TransportError)
         | Some resp \<Rightarrow>
             if \<not> ok resp then ([req], Inl (request_failed resp))
             else ([req], Inr True))"

text \<open>\<open>upsertNote({ content, type = 0 })\<close>: an \<open>undefined\<close> type takes the default.\<close>

definition upsertNote_request :: "BlinkoClient \<Rightarrow> string \<Rightarrow> jsval \<Rightarrow> http_request" where
  "upsertNote_request c content type =
     (let apiUrl = baseUrl c @ ''/api/v1/note/upsert'';
          reqBody = Obj [(''content'', Str content), (''type'', type)]
      in \<lparr>req_method = ''POST'', req_url = apiUrl,
          req_headers = [(''Content-Type'', ''application/json''),
                         (''Authorization'', ''Bearer '' @ apiKey c)],
          req_body = Some (to_json reqBody)\<rparr>)"

definition upsertNote :: "runtime \<Rightarrow> fetch \<Rightarrow> BlinkoClient \<Rightarrow> string \<Rightarrow> jsval \<Rightarrow> Note outcome" where
  "upsertNote rt fetch c content type0 =
     (let type = (if type0 = Undefined then Num (Fin 0) else type0) in
      if content = [] then ([], Inl (Error ''invalid content''))
      else
        let req = upsertNote_request c content type
        in case fetch req of
             None \<Rightarrow> ([req], Inl TransportError)
           | Some resp \<Rightarrow>
               if \<not> ok resp then ([req], Inl (request_failed resp))
               else (case json_note rt (resp_text resp) of
                       None \<Rightarrow> ([req], Inl SyntaxError)
                     | Some note \<Rightarrow> ([req], Inr note)))"

definition updateNote_request :: "BlinkoClient \<Rightarrow> jsnum \<Rightarrow> (string \<times> jsval) list \<Rightarrow> http_request" where
  "updateNote_request c noteId updates =
     (let apiUrl = baseUrl c @ ''/api/trpc/notes.upsert?batch=1'' in
      \<lparr>req_method = ''POST'', req_url = apiUrl,
       req_headers = [(''Content-Type'', ''application/json''),
                      (''Authorization'', ''Bearer '' @ apiKey c)],
       req_body = Some (to_json (Obj
         [(''0'', Obj [(''json'', Obj (spread [(''id'', Num noteId)] updates))])]))\<rparr>)"

definition updateNote :: "fetch \<Rightarrow> BlinkoClient \<Rightarrow> jsnum \<Rightarrow> (string \<times> jsval) list \<Rightarrow> bool outcome" where
  "updateNote fetch c noteId updates =
     (let req = updateNote_request c noteId updates
      in case fetch req of
           None \<Rightarrow> ([req], Inl TransportError)
         | Some resp \<Rightarrow>
             if \<not> ok resp then
               ([req], Inl (Error (''Failed to update note: '' @ show_nat (status resp) @ '': ''
                                    @ resp_text resp)))
             else ([req], Inr True))"

definition deleteNote_request :: "BlinkoClient \<Rightarrow> jsnum \<Rightarrow> http_request" where
  "deleteNote_request c noteId =
     (let apiUrl = baseUrl c @ ''/api/trpc/notes.deleteMany?batch=1'' in
      \<lparr>req_method = ''POST'', req_url = apiUrl,
       req_headers = [(''Content-Type'', ''application/json''),
                      (''Authorization'', ''Bearer '' @ apiKey c)],
       req_body = Some (to_json (Obj
         [(''0'', Obj [(''json'', Obj [(''ids'', Arr [Num noteId])])])]))\<rparr>)"

definition deleteNote :: "fetch \<Rightarrow> BlinkoClient \<Rightarrow> jsnum \<Rightarrow> bool outcome" where
  "deleteNote fetch c noteId =
     (let req = deleteNote_request c noteId
      in case fetch req of
           None \<Rightarrow> ([req], Inl TransportError)
         | Some resp \<Rightarrow>
             if \<not> ok resp then
               ([req], Inl (Error (''Failed to delete note: '' @ show_nat (status resp) @ '': ''
                                    @ resp_text resp)))
             else ([req], Inr True))"

definition archiveNote :: "fetch \<Rightarrow> BlinkoClient \<Rightarrow> jsnum \<Rightarrow> bool outcome" where
  "archiveNote fetch c noteId = updateNote fetch c noteId [(''isArchived'', Bool True)]"

record ShareNoteParams =
  s_id :: jsnum
  s_isCancel :: jsval
  s_password :: jsval

definition shareNote_request :: "BlinkoClient \<Rightarrow> ShareNoteParams \<Rightarrow> http_request" where
  "shareNote_request c params =
     (let apiUrl = baseUrl c @ ''/api/v1/note/share'';
          reqBody = Obj [(''id'', Num (s_id params)),
                         (''isCancel'', nullish (s_isCancel params) (Bool False)),
                         (''password'', nullish (s_password params) (Str []))]
      in \<lparr>req_method = ''POST'', req_url = apiUrl,
          req_headers = [(''Content-Type'', ''application/json''),
                         (''Authorization'', ''Bearer '' @ apiKey c)],
          req_body = Some (to_json reqBody)\<rparr>)"

definition shareNote :: "runtime \<Rightarrow> fetch \<Rightarrow> BlinkoClient \<Rightarrow> ShareNoteParams \<Rightarrow> ShareNoteResult outcome" where
  "shareNote rt fetch c params =
     (let req = shareNote_request c params
      in case fetch req of
           None \<Rightarrow> ([req], Inl TransportError)
         | Some resp \<Rightarrow>
             if \<not> ok resp then ([req], Inl (request_failed resp))
             else (case json_share rt (resp_text resp) of
                     None \<Rightarrow> ([req], Inl SyntaxError)
                   | Some result \<Rightarrow> ([req], Inr result)))"

section \<open>The tool dispatcher\<close>

text \<open>
  A tool call carries a tool name and an optional argument object.
  \<open>arguments?.k\<close> and the destructuring of \<open>arguments || {}\<close> both read \<open>undefined\<close> for a
  key that is absent and for an absent argument object.
\<close>

record CallToolRequest =
  name :: string
  arguments :: "(string \<times> jsval) list option"

definition arg :: "CallToolRequest \<Rightarrow> string \<Rightarrow> jsval" where
  "arg request k = (case arguments request of None \<Rightarrow> Undefined | Some kvs \<Rightarrow> get_prop kvs k)"

datatype content_block = TextBlock string

subsection \<open>Rendering\<close>

text \<open>
  The search case and the daily-review case each declare the same two helpers,
  \<open>formatDate\<close> and \<open>getTypeDescription\<close>, and build a block from a note with the same
  template; they are written once here.
\<close>

text \<open>
  \<open>new Date(dateStr).toLocaleString()\<close>. Constructing a date from a string never throws:
  a string that does not parse gives the time value \<open>NaN\<close>, and \<open>toLocaleString\<close> of that
  date returns the text \<open>Invalid Date\<close>.
\<close>

definition Date_toLocaleString :: "runtime \<Rightarrow> string \<Rightarrow> error + string" where
  "Date_toLocaleString rt dateStr =
     (case DateParse rt dateStr of
        None \<Rightarrow> Inr ''Invalid Date''
      | Some tv \<Rightarrow> Inr (TimeToLocaleString rt tv))"

text \<open>\<open>try { return new Date(dateStr).toLocaleString(); } catch { return dateStr; }\<close>\<close>

definition formatDate :: "runtime \<Rightarrow> string \<Rightarrow> string" where
  "formatDate rt dateStr =
     (case Date_toLocaleString rt dateStr of
        Inr s \<Rightarrow> s
      | Inl e \<Rightarrow> dateStr)"

definition getTypeDescription :: "jsnum \<Rightarrow> string" where
  "getTypeDescription type =
     (if type = Fin 0 then ''Flash Note''
      else if type = Fin 1 then ''Normal Note''
      else if type = Fin 2 then ''Todo Note''
      else ''Unknown'')"

definition render_note :: "runtime \<Rightarrow> Note \<Rightarrow> content_block" where
  "render_note rt note =
     TextBlock (''- [ID: '' @ num_to_string rt (n_id note) @ ''] [''
                @ getTypeDescription (n_type note) @ ''] '' @ n_content note
                @ [CHR 0x0A] @ ''  Created: '' @ formatDate rt (n_createdAt note)
                @ '' | Updated: '' @ formatDate rt (n_updatedAt note))"

subsection \<open>The cases of the switch\<close>

definition upsert_case :: "runtime \<Rightarrow> fetch \<Rightarrow> BlinkoClient \<Rightarrow> CallToolRequest \<Rightarrow> content_block list outcome" where
  "upsert_case rt fetch blinko request =
     (case js_String rt (arg request ''content'') of
        Inl e \<Rightarrow> ([], Inl e)
      | Inr content \<Rightarrow>
          if content = [] then ([], Inl (Error ''Content is required''))
          else
            let type = (if name request = ''upsert_blinko_flash_note'' then Fin 0
                        else if name request = ''upsert_blinko_note'' then Fin 1
                        else Fin 2)
            in case upsertNote rt fetch blinko content (Num type) of
                 (reqs, Inl e) \<Rightarrow> (reqs, Inl e)
               | (reqs, Inr note) \<Rightarrow>
                   (reqs, Inr [TextBlock (''Successfully wrote note to Blinko. Note ID: ''
                                          @ num_to_string rt (n_id note))]))"

text \<open>The guard \<open>!noteId || isNaN(noteId)\<close> of the five tools that take a note id.\<close>

definition invalid_noteId :: "jsnum \<Rightarrow> bool" where
  "invalid_noteId noteId \<longleftrightarrow> \<not> num_truthy noteId \<or> isNaN noteId"

text \<open>
  The four assignments to \<open>updates\<close> run in order; the conversion of \<open>content\<close> or of \<open>type\<close>
  may throw, and then nothing is sent.
\<close>

definition update_case :: "runtime \<Rightarrow> fetch \<Rightarrow> BlinkoClient \<Rightarrow> CallToolRequest \<Rightarrow> content_block list outcome" where
  "update_case rt fetch blinko request =
     (case js_Number rt (arg request ''noteId'') of
        Inl e \<Rightarrow> ([], Inl e)
      | Inr noteId \<Rightarrow>
          if invalid_noteId noteId then ([], Inl (Error ''Valid note ID is required''))
          else
            let content = arg request ''content'';
                type = arg request ''type'';
                isArchived = arg request ''isArchived'';
                isTop = arg request ''isTop'';
                updates = []
            in case (if content \<noteq> Undefined
                     then (case js_String rt content of
                             Inl e \<Rightarrow> Inl e
                           | Inr s \<Rightarrow> Inr (AList.update ''content'' (Str s) updates))
                     else Inr updates) of
                 Inl e \<Rightarrow> ([], Inl e)
               | Inr updates \<Rightarrow>
                   (case (if type \<noteq> Undefined
                          then (case js_Number rt type of
                                  Inl e \<Rightarrow> Inl e
                                | Inr n \<Rightarrow> Inr (AList.update ''type'' (Num n) updates))
                          else Inr updates) of
                      Inl e \<Rightarrow> ([], Inl e)
                    | Inr updates \<Rightarrow>
                        let updates = (if isArchived \<noteq> Undefined
                                       then AList.update ''isArchived''
                                              (Bool (js_Boolean isArchived)) updates
                                       else updates);
                            updates = (if isTop \<noteq> Undefined
                                       then AList.update ''isTop'' (Bool (js_Boolean isTop)) updates
                                       else updates)
                        in case updateNote fetch blinko noteId updates of
                             (reqs, Inl e) \<Rightarrow> (reqs, Inl e)
                           | (reqs, Inr u) \<Rightarrow>
                               (reqs, Inr [TextBlock (''Successfully updated note ''
                                                      @ num_to_string rt noteId)])))"

definition delete_case :: "runtime \<Rightarrow> fetch \<Rightarrow> BlinkoClient \<Rightarrow> CallToolRequest \<Rightarrow> content_block list outcome" where
  "delete_case rt fetch blinko request =
     (case js_Number rt (arg request ''noteId'') of
        Inl e \<Rightarrow> ([], Inl e)
      | Inr noteId \<Rightarrow>
          if invalid_noteId noteId then ([], Inl (Error ''Valid note ID is required''))
          else
            case deleteNote fetch blinko noteId of
              (reqs, Inl e) \<Rightarrow> (reqs, Inl e)
            | (reqs, Inr u) \<Rightarrow>
                (reqs, Inr [TextBlock (''Successfully deleted note ''
                                       @ num_to_string rt noteId)]))"

definition archive_case :: "runtime \<Rightarrow> fetch \<Rightarrow> BlinkoClient \<Rightarrow> CallToolRequest \<Rightarrow> content_block list outcome" where
  "archive_case rt fetch blinko request =
     (case js_Number rt (arg request ''noteId'') of
        Inl e \<Rightarrow> ([], Inl e)
      | Inr noteId \<Rightarrow>
          if invalid_noteId noteId then ([], Inl (Error ''Valid note ID is required''))
          else
            case archiveNote fetch blinko noteId of
              (reqs, Inl e) \<Rightarrow> (reqs, Inl e)
            | (reqs, Inr u) \<Rightarrow>
                let action = (if name request = ''complete_blinko_todo'' then ''completed''
                              else ''archived'')
                in (reqs, Inr [TextBlock (''Successfully '' @ action @ '' note ''
                                          @ num_to_string rt noteId)]))"

text \<open>
  The argument of \<open>searchNotes\<close> is built field by field: \<open>Number(size)\<close>, then
  \<open>String(startDate)\<close> and \<open>String(endDate)\<close> where those are truthy; a conversion that throws
  ends the call before the client is reached.
\<close>

definition search_case :: "runtime \<Rightarrow> fetch \<Rightarrow> BlinkoClient \<Rightarrow> CallToolRequest \<Rightarrow> content_block list outcome" where
  "search_case rt fetch blinko request =
     (case js_String rt (arg request ''searchText'') of
        Inl e \<Rightarrow> ([], Inl e)
      | Inr searchText \<Rightarrow>
          if searchText = [] then ([], Inl (Error ''Search text is required''))
          else
            let size = arg request ''size'';
                type = arg request ''type'';
                isArchived = arg request ''isArchived'';
                isRecycle = arg request ''isRecycle'';
                isUseAiQuery = arg request ''isUseAiQuery'';
                startDate = arg request ''startDate'';
                endDate = arg request ''endDate'';
                hasTodo = arg request ''hasTodo'';
                noteType = Num (Fin (- 1));
                noteType = (if type = Num (Fin 0) \<or> type = Num (Fin 1) \<or> type = Num (Fin 2)
                            then type else noteType)
            in case js_Number rt size of
                 Inl e \<Rightarrow> ([], Inl e)
               | Inr sizeNum \<Rightarrow>
                   (case (if js_Boolean startDate
                          then (case js_String rt startDate of
                                  Inl e \<Rightarrow> Inl e
                                | Inr s \<Rightarrow> Inr (Str s))
                          else Inr Null) of
                      Inl e \<Rightarrow> ([], Inl e)
                    | Inr startDateArg \<Rightarrow>
                        (case (if js_Boolean endDate
                               then (case js_String rt endDate of
                                       Inl e \<Rightarrow> Inl e
                                     | Inr s \<Rightarrow> Inr (Str s))
                               else Inr Null) of
                           Inl e \<Rightarrow> ([], Inl e)
                         | Inr endDateArg \<Rightarrow>
                             (case searchNotes rt fetch blinko
                                     \<lparr>p_size = (if num_truthy sizeNum then Num sizeNum
                                                 else Undefined),
                                      p_type = noteType,
                                      p_isArchived = Bool (js_Boolean isArchived),
                                      p_isRecycle = Bool (js_Boolean isRecycle),
                                      p_searchText = searchText,
                                      p_isUseAiQuery = Bool (isUseAiQuery \<noteq> Bool False),
                                      p_startDate = startDateArg,
                                      p_endDate = endDateArg,
                                      p_hasTodo = Bool (js_Boolean hasTodo)\<rparr> of
                                (reqs, Inl e) \<Rightarrow> (reqs, Inl e)
                              | (reqs, Inr notes) \<Rightarrow>
                                  (reqs, Inr (TextBlock (''Found '' @ show_nat (length notes)
                                                         @ '' note(s):'')
                                              # map (render_note rt) notes))))))"

definition review_case :: "runtime \<Rightarrow> fetch \<Rightarrow> BlinkoClient \<Rightarrow> content_block list outcome" where
  "review_case rt fetch blinko =
     (case getDailyReviewNotes rt fetch blinko of
        (reqs, Inl e) \<Rightarrow> (reqs, Inl e)
      | (reqs, Inr notes) \<Rightarrow>
          (reqs, Inr (TextBlock (''Found '' @ show_nat (length notes)
                                 @ '' note(s) for today's review:'')
                      # map (render_note rt) notes)))"

text \<open>\<open>/^\d{6}$/.test(s)\<close>: the string is six decimal digits.\<close>

definition six_digits :: "string \<Rightarrow> bool" where
  "six_digits s \<longleftrightarrow> length s = 6 \<and> list_all (\<lambda>c. c \<in> set ''0123456789'') s"

definition share_case :: "runtime \<Rightarrow> fetch \<Rightarrow> BlinkoClient \<Rightarrow> CallToolRequest \<Rightarrow> content_block list outcome" where
  "share_case rt fetch blinko request =
     (case js_Number rt (arg request ''noteId'') of
        Inl e \<Rightarrow> ([], Inl e)
      | Inr noteId \<Rightarrow>
          if invalid_noteId noteId then ([], Inl (Error ''Valid note ID is required''))
          else
            let password = arg request ''password'';
                isCancel = arg request ''isCancel''
            in case (if js_Boolean password then js_String rt password else Inr []) of
                 Inl e \<Rightarrow> ([], Inl e)
               | Inr passwordStr \<Rightarrow>
                   if passwordStr \<noteq> [] \<and> \<not> six_digits passwordStr
                   then ([], Inl (Error ''Password must be exactly 6 digits''))
                   else
                     case shareNote rt fetch blinko
                            \<lparr>s_id = noteId, s_isCancel = Bool (js_Boolean isCancel),
                             s_password = Str passwordStr\<rparr> of
                       (reqs, Inl e) \<Rightarrow> (reqs, Inl e)
                     | (reqs, Inr result) \<Rightarrow>
                         if r_isShare result then
                           (reqs, Inr ([TextBlock (''Successfully shared note (ID: ''
                                                   @ num_to_string rt (r_id result) @ '')'')]
                                       @ (case r_sharePassword result of
                                            None \<Rightarrow> []
                                          | Some pw \<Rightarrow>
                                              if pw \<noteq> []
                                              then [TextBlock (''Share password: '' @ pw)]
                                              else [])
                                       @ [TextBlock (''Share link: ''
                                                     @ (case r_shareEncryptedUrl result of
                                                          None \<Rightarrow> ''N/A''
                                                        | Some u \<Rightarrow>
                                                            if u \<noteq> [] then u else ''N/A''))]))
                         else
                           (reqs, Inr [TextBlock (''Successfully cancelled sharing for note (ID: ''
                                                  @ num_to_string rt (r_id result) @ '')'')]))"

definition clear_case :: "fetch \<Rightarrow> BlinkoClient \<Rightarrow> content_block list outcome" where
  "clear_case fetch blinko =
     (case clearRecycleBin fetch blinko of
        (reqs, Inl e) \<Rightarrow> (reqs, Inl e)
      | (reqs, Inr success) \<Rightarrow>
          if \<not> success then (reqs, Inl (Error ''Failed to clear recycle bin''))
          else (reqs, Inr [TextBlock ''Successfully cleared Blinko recycle bin.'']))"

subsection \<open>The handler\<close>

text \<open>
  The handler of a tool call, for the configured \<open>domain\<close> and \<open>apiKey\<close>: the two
  configuration checks, the construction of the client, then the switch on the tool name.
\<close>

definition handle :: "runtime \<Rightarrow> fetch \<Rightarrow> string \<Rightarrow> string \<Rightarrow> CallToolRequest \<Rightarrow> content_block list outcome" where
  "handle rt fetch domain key request =
     (if domain = [] then ([], Inl (Error ''Blinko domain not set''))
      else if key = [] then ([], Inl (Error ''Blinko API key not set''))
      else
        case new_BlinkoClient domain key of
          Inl e \<Rightarrow> ([], Inl e)
        | Inr blinko \<Rightarrow>
            if name request = ''upsert_blinko_flash_note''
               \<or> name request = ''upsert_blinko_note''
               \<or> name request = ''upsert_blinko_todo''
            then upsert_case rt fetch blinko request
            else if name request = ''update_blinko_note'' then update_case rt fetch blinko request
            else if name request = ''delete_blinko_note'' then delete_case rt fetch blinko request
            else if name request = ''archive_blinko_note''
                    \<or> name request = ''complete_blinko_todo''
            then archive_case rt fetch blinko request
            else if name request = ''search_blinko_notes'' then search_case rt fetch blinko request
            else if name request = ''review_blinko_daily_notes'' then review_case rt fetch blinko
            else if name request = ''share_blinko_note'' then share_case rt fetch blinko request
            else if name request = ''clear_blinko_recycle_bin'' then clear_case fetch blinko
            else ([], Inl (Error ''Unknown tool'')))"

section \<open>Fixtures and statement vocabulary\<close>

text \<open>
  A fixed runtime, a fixed note and a remote service that gives one answer to every request,
  for evaluating the handler at concrete tool calls.
\<close>

definition test_note :: Note where
  "test_note = \<lparr>n_id = Fin 42, n_type = Fin 2, n_content = ''buy milk'',
     n_isArchived = False, n_isRecycle = False, n_isShare = False, n_isTop = False,
     n_isReviewed = False, n_sharePassword = None, n_shareEncryptedUrl = None,
     n_createdAt = ''not-a-date'', n_updatedAt = ''1970-01-01T00:00:00.000Z''\<rparr>"

definition test_runtime :: runtime where
  "test_runtime = \<lparr>StringToNumber = (\<lambda>s. if s = ''5'' then Fin 5 else NaN),
     NumberToString = (\<lambda>q. ''0.5''),
     DateParse = (\<lambda>s. if s = ''1970-01-01T00:00:00.000Z'' then Some 0 else None),
     TimeToLocaleString = (\<lambda>tv. ''1/1/1970, 12:00:00 AM''),
     json_notes = (\<lambda>s. Some [test_note]),
     json_note = (\<lambda>s. Some test_note),
     json_share = (\<lambda>s. None)\<rparr>"

definition test_fetch :: "nat \<Rightarrow> string \<Rightarrow> fetch" where
  "test_fetch code txt = (\<lambda>req. Some \<lparr>status = code, resp_text = txt\<rparr>)"

text \<open>The password text the share tool derives from its \<open>password\<close> argument.\<close>

definition passwordStr :: "runtime \<Rightarrow> CallToolRequest \<Rightarrow> error + string" where
  "passwordStr rt request =
     (if js_Boolean (arg request ''password'') then js_String rt (arg request ''password'')
      else Inr [])"

text \<open>A conversion returns when it does not throw.\<close>

definition returns :: "error + 'a \<Rightarrow> bool" where
  "returns r = (case r of Inl e \<Rightarrow> False | Inr x \<Rightarrow> True)"

text \<open>
  The fields \<open>update_blinko_note\<close> assigns to \<open>updates\<close>, given the texts and numbers that
  the conversions of \<open>content\<close> and \<open>type\<close> return.
\<close>

definition update_fields :: "CallToolRequest \<Rightarrow> string \<Rightarrow> jsnum \<Rightarrow> (string \<times> jsval) list" where
  "update_fields request content type =
     (if arg request ''content'' \<noteq> Undefined then [(''content'', Str content)] else [])
     @ (if arg request ''type'' \<noteq> Undefined then [(''type'', Num type)] else [])
     @ (if arg request ''isArchived'' \<noteq> Undefined
        then [(''isArchived'', Bool (js_Boolean (arg request ''isArchived'')))] else [])
     @ (if arg request ''isTop'' \<noteq> Undefined
        then [(''isTop'', Bool (js_Boolean (arg request ''isTop'')))] else [])"

text \<open>
  The conversions the update case and the search case make after their first check return,
  and the share case accepts its password: the conditions under which these cases reach the
  client.
\<close>

definition updates_convert :: "runtime \<Rightarrow> CallToolRequest \<Rightarrow> bool" where
  "updates_convert rt request \<longleftrightarrow>
     (arg request ''content'' \<noteq> Undefined \<longrightarrow> returns (js_String rt (arg request ''content'')))
     \<and> (arg request ''type'' \<noteq> Undefined \<longrightarrow> returns (js_Number rt (arg request ''type'')))"

definition search_args_convert :: "runtime \<Rightarrow> CallToolRequest \<Rightarrow> bool" where
  "search_args_convert rt request \<longleftrightarrow>
     returns (js_Number rt (arg request ''size''))
     \<and> (js_Boolean (arg request ''startDate'') \<longrightarrow> returns (js_String rt (arg request ''startDate'')))
     \<and> (js_Boolean (arg request ''endDate'') \<longrightarrow> returns (js_String rt (arg request ''endDate'')))"

definition password_accepted :: "runtime \<Rightarrow> CallToolRequest \<Rightarrow> bool" where
  "password_accepted rt request =
     (case passwordStr rt request of Inl e \<Rightarrow> False | Inr s \<Rightarrow> s = [] \<or> six_digits s)"

text \<open>
  The path of the request behind each tool that takes a note id, and the statement that
  exactly one request was sent, to a given URL.
\<close>

definition tool_path :: "string \<Rightarrow> string" where
  "tool_path tool =
     (if tool = ''delete_blinko_note'' then ''/api/trpc/notes.deleteMany?batch=1''
      else if tool = ''share_blinko_note'' then ''/api/v1/note/share''
      else ''/api/trpc/notes.upsert?batch=1'')"

definition sent_one_to :: "http_request list \<Rightarrow> string \<Rightarrow> bool" where
  "sent_one_to reqs target = (case reqs of [req] \<Rightarrow> req_url req = target | _ \<Rightarrow> False)"

text \<open>The note type each of the three upsert tools passes to the client.\<close>

definition upsert_type :: "string \<Rightarrow> jsnum" where
  "upsert_type tool =
     (if tool = ''upsert_blinko_flash_note'' then Fin 0
      else if tool = ''upsert_blinko_note'' then Fin 1
      else Fin 2)"

text \<open>
  An outcome reports a response when it is an error whose message contains the decimal
  status code and the body text of the response.
\<close>

definition reports :: "http_response \<Rightarrow> error + 'a \<Rightarrow> bool" where
  "reports resp res =
     (case res of
        Inl (Error msg) \<Rightarrow> sublist (show_nat (status resp)) msg \<and> sublist (resp_text resp) msg
      | _ \<Rightarrow> False)"

text \<open>A client for evaluating the operations.\<close>

definition test_client :: BlinkoClient where
  "test_client = \<lparr>baseUrl = ''https://example.com'', apiKey = ''k''\<rparr>"

section \<open>Properties of the client\<close>

subsection \<open>Domain normalization\<close>

lemma strip_keeps_prefix:
  assumes "prefix p d" "d \<noteq> p"
  shows "prefix p (strip_trailing_slash d)"
proof -
  from assms obtain r where d: "d = p @ r" and r: "r \<noteq> []"
    by (auto simp: prefix_def)
  then have "butlast d = p @ butlast r" by (simp add: butlast_append)
  then show ?thesis using d by (auto simp: strip_trailing_slash_def)
qed

lemma strip_prefix_back:
  "prefix p (strip_trailing_slash d) \<Longrightarrow> prefix p d"
proof -
  assume "prefix p (strip_trailing_slash d)"
  moreover have "prefix (strip_trailing_slash d) d"
    by (simp add: strip_trailing_slash_def prefixeq_butlast)
  ultimately show ?thesis by (rule prefix_order.trans)
qed

text \<open>
  C5, as stated, fails: the domain \<open>http://\<close> has the prefix \<open>http://\<close>, but the client tests
  the prefix after the trailing slash is gone, when only \<open>http:/\<close> is left, and so puts
  \<open>https://\<close> in front: the base URL is \<open>https://http:/\<close>, not the input less its slash.
\<close>

theorem normalizeDomain_bare_scheme_counterexample:
  "startsWith ''http://'' ''http://''
   \<and> normalizeDomain ''http://'' = Inr ''https://http:/''
   \<and> normalizeDomain ''http://'' \<noteq> Inr (strip_trailing_slash ''http://'')"
  by (simp add: normalizeDomain_def strip_trailing_slash_def startsWith_def)

text \<open>
  C5, amended: a non-empty domain with neither prefix is normalized to \<open>https://\<close> followed
  by the domain less one trailing slash; a domain with the prefix \<open>http://\<close> or \<open>https://\<close>
  that is more than the bare prefix is normalized to itself less one trailing slash.
\<close>

theorem normalizeDomain_amended:
  "(domain \<noteq> [] \<and> \<not> startsWith domain ''http://'' \<and> \<not> startsWith domain ''https://''
      \<longrightarrow> normalizeDomain domain = Inr (''https://'' @ strip_trailing_slash domain))
   \<and> ((startsWith domain ''http://'' \<or> startsWith domain ''https://'')
        \<and> domain \<noteq> ''http://'' \<and> domain \<noteq> ''https://''
      \<longrightarrow> normalizeDomain domain = Inr (strip_trailing_slash domain))"
proof (intro conjI impI)
  assume a: "domain \<noteq> [] \<and> \<not> startsWith domain ''http://'' \<and> \<not> startsWith domain ''https://''"
  then have "\<not> startsWith (strip_trailing_slash domain) ''http://''"
    and "\<not> startsWith (strip_trailing_slash domain) ''https://''"
    unfolding startsWith_def using strip_prefix_back by blast+
  with a show "normalizeDomain domain = Inr (''https://'' @ strip_trailing_slash domain)"
    by (simp add: normalizeDomain_def)
next
  assume b: "(startsWith domain ''http://'' \<or> startsWith domain ''https://'')
        \<and> domain \<noteq> ''http://'' \<and> domain \<noteq> ''https://''"
  then have ne: "domain \<noteq> []" by (auto simp: startsWith_def)
  from b have "startsWith (strip_trailing_slash domain) ''http://''
     \<or> startsWith (strip_trailing_slash domain) ''https://''"
    unfolding startsWith_def using strip_keeps_prefix by blast
  with ne show "normalizeDomain domain = Inr (strip_trailing_slash domain)"
    by (simp add: normalizeDomain_def)
qed

theorem normalizeDomain_amended_witness:
  "normalizeDomain ''example.com/'' = Inr ''https://example.com''
   \<and> normalizeDomain ''http://example.com:3000/'' = Inr ''http://example.com:3000''"
  using normalizeDomain_amended [of "''example.com/''"]
    normalizeDomain_amended [of "''http://example.com:3000/''"]
  by (simp add: startsWith_def strip_trailing_slash_def)

section \<open>Properties of the dispatcher\<close>

subsection \<open>Reaching a case of the switch\<close>

lemma normalizeDomain_Inr: "domain \<noteq> [] \<Longrightarrow> \<exists>u. normalizeDomain domain = Inr u"
  by (simp add: normalizeDomain_def Let_def)

lemma new_BlinkoClient_Inr:
  "domain \<noteq> [] \<Longrightarrow> \<exists>u. new_BlinkoClient domain key = Inr \<lparr>baseUrl = u, apiKey = key\<rparr>"
  using normalizeDomain_Inr [of domain] by (auto simp: new_BlinkoClient_def)

lemma handle_update:
  assumes "domain \<noteq> []" "key \<noteq> []" "name request = ''update_blinko_note''"
  shows "\<exists>blinko. handle rt fetch domain key request = update_case rt fetch blinko request"
  using new_BlinkoClient_Inr [OF assms(1), of key] assms by (auto simp: handle_def)

lemma fst_updateNote: "fst (updateNote fetch c noteId updates) = [updateNote_request c noteId updates]"
  by (simp add: updateNote_def Let_def split: option.splits)

lemma fst_outcome_case [simp]:
  "fst (case x of (reqs, r) \<Rightarrow> (case r of Inl e \<Rightarrow> (reqs, f reqs e) | Inr v \<Rightarrow> (reqs, g reqs v))) = fst x"
  by (auto split: prod.splits sum.splits)

lemma snd_outcome_case [simp]:
  "snd (case x of (reqs, r) \<Rightarrow> (case r of Inl e \<Rightarrow> (reqs, f reqs e) | Inr v \<Rightarrow> (reqs, g reqs v)))
   = (case snd x of Inl e \<Rightarrow> f (fst x) e | Inr v \<Rightarrow> g (fst x) v)"
  by (auto split: prod.splits sum.splits)

subsection \<open>Conversions that throw\<close>

text \<open>A conversion throws nothing but a \<open>TypeError\<close>.\<close>

lemma collect_Inl: "collect rs = Inl e \<Longrightarrow> Inl e \<in> set rs"
  by (induction rs) (auto split: sum.splits)

lemma js_String_Inl: "js_String rt v = Inl e \<Longrightarrow> e = TypeError"
proof (induction rt v rule: js_String.induct)
  case (6 rt xs)
  from "6.prems" have "collect (map (\<lambda>x. if x = Undefined \<or> x = Null then Inr []
                                          else js_String rt x) xs) = Inl e"
    by (simp split: sum.splits)
  from collect_Inl [OF this] obtain x where
    "x \<in> set xs" "(if x = Undefined \<or> x = Null then Inr [] else js_String rt x) = Inl e"
    by auto
  with "6.IH" show ?case by (auto split: if_splits)
qed (auto split: if_splits)

lemma js_Number_Inl: "js_Number rt v = Inl e \<Longrightarrow> e = TypeError"
  by (cases v) (auto simp: js_Number_def simp del: js_String.simps split: sum.splits
        dest: js_String_Inl)

subsection \<open>The payload of an update\<close>

lemma update_case_sends:
  assumes "js_Number rt (arg request ''noteId'') = Inr noteId" and "\<not> invalid_noteId noteId"
    and "arg request ''content'' \<noteq> Undefined
           \<longrightarrow> js_String rt (arg request ''content'') = Inr content"
    and "arg request ''type'' \<noteq> Undefined \<longrightarrow> js_Number rt (arg request ''type'') = Inr type"
  shows "update_case rt fetch blinko request =
     (case updateNote fetch blinko noteId (update_fields request content type) of
        (reqs, Inl e) \<Rightarrow> (reqs, Inl e)
      | (reqs, Inr u) \<Rightarrow>
          (reqs, Inr [TextBlock (''Successfully updated note '' @ num_to_string rt noteId)]))"
proof (cases "arg request ''content'' = Undefined")
  case True
  show ?thesis
  proof (cases "arg request ''type'' = Undefined")
    case tu: True
    show ?thesis using assms True tu
      by (auto simp add: update_case_def update_fields_def Let_def split: prod.splits sum.splits)
  next
    case td: False
    show ?thesis using assms True td
      by (auto simp add: update_case_def update_fields_def Let_def split: prod.splits sum.splits)
  qed
next
  case False
  show ?thesis
  proof (cases "arg request ''type'' = Undefined")
    case tu: True
    show ?thesis using assms False tu
      by (auto simp add: update_case_def update_fields_def Let_def split: prod.splits sum.splits)
  next
    case td: False
    show ?thesis using assms False td
      by (auto simp add: update_case_def update_fields_def Let_def split: prod.splits sum.splits)
  qed
qed

text \<open>
  C1: when \<open>update_blinko_note\<close> is called with a note id that converts to a finite number
  and passes the check, and the supplied \<open>content\<close> and \<open>type\<close> convert, one request is
  sent. The inner object of its payload is the key \<open>id\<close> with the note id, followed by
  exactly those of \<open>content\<close>, \<open>type\<close>, \<open>isArchived\<close>, \<open>isTop\<close> that the caller supplied,
  each with the converted value of the argument, and no other key. (A \<open>type\<close> that
  converts to a number that is not finite is written as \<open>null\<close>.)
\<close>

theorem update_payload_fields:
  assumes "domain \<noteq> []" and "key \<noteq> []" and "name request = ''update_blinko_note''"
    and "js_Number rt (arg request ''noteId'') = Inr noteId"
    and "\<not> invalid_noteId noteId" and "is_finite noteId"
    and "arg request ''content'' \<noteq> Undefined
           \<longrightarrow> js_String rt (arg request ''content'') = Inr content"
    and "arg request ''type'' \<noteq> Undefined \<longrightarrow> js_Number rt (arg request ''type'') = Inr type"
  shows "\<exists>req fields.
           fst (handle rt fetch domain key request) = [req]
           \<and> req_body req = Some (Obj [(''0'', Obj [(''json'', Obj fields)])])
           \<and> fields =
               [(''id'', Num noteId)]
               @ (if arg request ''content'' \<noteq> Undefined then [(''content'', Str content)] else [])
               @ (if arg request ''type'' \<noteq> Undefined
                  then [(''type'', if is_finite type then Num type else Null)] else [])
               @ (if arg request ''isArchived'' \<noteq> Undefined
                  then [(''isArchived'', Bool (js_Boolean (arg request ''isArchived'')))] else [])
               @ (if arg request ''isTop'' \<noteq> Undefined
                  then [(''isTop'', Bool (js_Boolean (arg request ''isTop'')))] else [])
           \<and> map fst fields =
               ''id'' # filter (\<lambda>k. arg request k \<noteq> Undefined)
                               [''content'', ''type'', ''isArchived'', ''isTop'']"
proof -
  from handle_update [OF assms(1-3)] obtain blinko where
    h: "handle rt fetch domain key request = update_case rt fetch blinko request" by blast
  have f: "fst (handle rt fetch domain key request)
             = [updateNote_request blinko noteId (update_fields request content type)]"
    unfolding h update_case_sends [OF assms(4,5,7,8)]
    by (simp only: fst_outcome_case fst_updateNote)
  show ?thesis
    unfolding f using assms(6)
    by (simp add: updateNote_request_def update_fields_def spread_def Let_def)
qed

theorem update_payload_fields_witness:
  "(\<exists>req. fst (handle test_runtime (test_fetch 200 ''{}'') ''example.com'' ''k''
               \<lparr>name = ''update_blinko_note'',
                arguments = Some [(''noteId'', Num (Fin 5))]\<rparr>) = [req]
         \<and> req_body req = Some (Obj [(''0'', Obj [(''json'', Obj [(''id'', Num (Fin 5))])])]))
   \<and> (\<exists>req. fst (handle test_runtime (test_fetch 200 ''{}'') ''example.com'' ''k''
               \<lparr>name = ''update_blinko_note'',
                arguments = Some [(''noteId'', Num (Fin 5)), (''content'', Str ''done''),
                                  (''isTop'', Num (Fin 1))]\<rparr>) = [req]
         \<and> req_body req = Some (Obj [(''0'', Obj [(''json'', Obj
               [(''id'', Num (Fin 5)), (''content'', Str ''done''),
                (''isTop'', Bool True)])])]))"
  using update_payload_fields [where domain = "''example.com''" and key = "''k''"
      and rt = test_runtime and fetch = "test_fetch 200 ''{}''" and noteId = "Fin 5"
      and content = "[]" and type = NaN
      and request = "\<lparr>name = ''update_blinko_note'',
                       arguments = Some [(''noteId'', Num (Fin 5))]\<rparr>"]
    update_payload_fields [where domain = "''example.com''" and key = "''k''"
      and rt = test_runtime and fetch = "test_fetch 200 ''{}''" and noteId = "Fin 5"
      and content = "''done''" and type = NaN
      and request = "\<lparr>name = ''update_blinko_note'',
                arguments = Some [(''noteId'', Num (Fin 5)), (''content'', Str ''done''),
                                  (''isTop'', Num (Fin 1))]\<rparr>"]
  by (simp add: js_Number_def arg_def get_prop_def invalid_noteId_def num_truthy_def isNaN_def
      is_finite_def js_Boolean_def)

text \<open>
  Where the conversion of a supplied argument throws, the call fails with the
  \<open>TypeError\<close> and nothing is sent.
\<close>

lemma update_throws_on_unconvertible_content:
  "handle test_runtime (test_fetch 200 ''{}'') ''example.com'' ''k''
     \<lparr>name = ''update_blinko_note'',
      arguments = Some [(''noteId'', Num (Fin 5)),
                        (''content'', Obj [(''toString'', Num (Fin 1))])]\<rparr>
   = ([], Inl TypeError)"
  by (simp add: handle_def new_BlinkoClient_def normalizeDomain_def strip_trailing_slash_def
      startsWith_def update_case_def Let_def js_Number_def arg_def get_prop_def
      invalid_noteId_def num_truthy_def isNaN_def)

subsection \<open>The note-id check\<close>

lemma handle_tool:
  assumes "domain \<noteq> []" "key \<noteq> []"
  shows "\<exists>u. normalizeDomain domain = Inr u
    \<and> (name request = ''update_blinko_note'' \<longrightarrow>
         handle rt fetch domain key request
           = update_case rt fetch \<lparr>baseUrl = u, apiKey = key\<rparr> request)
    \<and> (name request = ''delete_blinko_note'' \<longrightarrow>
         handle rt fetch domain key request
           = delete_case rt fetch \<lparr>baseUrl = u, apiKey = key\<rparr> request)
    \<and> (name request = ''archive_blinko_note'' \<or> name request = ''complete_blinko_todo'' \<longrightarrow>
         handle rt fetch domain key request
           = archive_case rt fetch \<lparr>baseUrl = u, apiKey = key\<rparr> request)
    \<and> (name request = ''share_blinko_note'' \<longrightarrow>
         handle rt fetch domain key request
           = share_case rt fetch \<lparr>baseUrl = u, apiKey = key\<rparr> request)"
  using normalizeDomain_Inr [OF assms(1)] assms
  by (auto simp: handle_def new_BlinkoClient_def)

lemma invalid_noteId_iff: "invalid_noteId n \<longleftrightarrow> n = NaN \<or> n = Fin 0"
  by (auto simp: invalid_noteId_def num_truthy_def isNaN_def)

lemma request_failed_not_guard [simp]:
  "request_failed resp \<noteq> Error ''Valid note ID is required''"
  by (simp add: request_failed_def)

lemma updateNote_valid:
  "sent_one_to (fst (updateNote fetch c n u)) (baseUrl c @ ''/api/trpc/notes.upsert?batch=1'')
   \<and> snd (updateNote fetch c n u) \<noteq> Inl (Error ''Valid note ID is required'')"
  by (simp add: updateNote_def updateNote_request_def sent_one_to_def Let_def
      split: option.splits)

lemma deleteNote_valid:
  "sent_one_to (fst (deleteNote fetch c n)) (baseUrl c @ ''/api/trpc/notes.deleteMany?batch=1'')
   \<and> snd (deleteNote fetch c n) \<noteq> Inl (Error ''Valid note ID is required'')"
  by (simp add: deleteNote_def deleteNote_request_def sent_one_to_def Let_def
      split: option.splits)

lemma fst_shareNote: "fst (shareNote rt fetch c p) = [shareNote_request c p]"
  by (simp add: shareNote_def Let_def split: option.splits)

lemma req_url_shareNote: "req_url (shareNote_request c p) = baseUrl c @ ''/api/v1/note/share''"
  by (simp add: shareNote_request_def Let_def)

lemma shareNote_valid:
  "sent_one_to (fst (shareNote rt fetch c p)) (baseUrl c @ ''/api/v1/note/share'')
   \<and> snd (shareNote rt fetch c p) \<noteq> Inl (Error ''Valid note ID is required'')"
proof
  show "sent_one_to (fst (shareNote rt fetch c p)) (baseUrl c @ ''/api/v1/note/share'')"
    by (simp only: fst_shareNote sent_one_to_def list.case req_url_shareNote)
  show "snd (shareNote rt fetch c p) \<noteq> Inl (Error ''Valid note ID is required'')"
    by (simp add: shareNote_def Let_def split: option.splits)
qed

lemma relay_not_error:
  "snd x \<noteq> Inl (Error m) \<Longrightarrow> (case snd x of Inl e \<Rightarrow> Inl e | Inr v \<Rightarrow> Inr (g v)) \<noteq> Inl (Error m)"
  by (cases "snd x") auto

lemma update_case_rejects:
  "js_Number rt (arg request ''noteId'') = Inr n \<Longrightarrow> invalid_noteId n \<Longrightarrow>
   update_case rt fetch c request = ([], Inl (Error ''Valid note ID is required''))"
  by (simp add: update_case_def)

lemma update_case_passes:
  assumes n: "js_Number rt (arg request ''noteId'') = Inr n" "\<not> invalid_noteId n"
  shows "snd (update_case rt fetch c request) \<noteq> Inl (Error ''Valid note ID is required'')"
    and "updates_convert rt request
         \<Longrightarrow> sent_one_to (fst (update_case rt fetch c request))
               (baseUrl c @ ''/api/trpc/notes.upsert?batch=1'')"
proof -
  have sends: "sent_one_to (fst (update_case rt fetch c request))
                 (baseUrl c @ ''/api/trpc/notes.upsert?batch=1'')
               \<and> snd (update_case rt fetch c request) \<noteq> Inl (Error ''Valid note ID is required'')"
    if "arg request ''content'' \<noteq> Undefined \<longrightarrow> js_String rt (arg request ''content'') = Inr s"
      and "arg request ''type'' \<noteq> Undefined \<longrightarrow> js_Number rt (arg request ''type'') = Inr t"
    for s t
    unfolding update_case_sends [OF n that]
    apply (simp only: fst_outcome_case snd_outcome_case updateNote_valid simp_thms)
    apply (rule relay_not_error)
    apply (rule updateNote_valid [THEN conjunct2])
    done
  have conv: "\<exists>s t. (arg request ''content'' \<noteq> Undefined
                        \<longrightarrow> js_String rt (arg request ''content'') = Inr s)
                   \<and> (arg request ''type'' \<noteq> Undefined
                        \<longrightarrow> js_Number rt (arg request ''type'') = Inr t)"
    if "updates_convert rt request"
    using that by (auto simp: updates_convert_def returns_def split: sum.splits)
  show "sent_one_to (fst (update_case rt fetch c request))
          (baseUrl c @ ''/api/trpc/notes.upsert?batch=1'')"
    if "updates_convert rt request"
    using conv [OF that] sends by blast
  show "snd (update_case rt fetch c request) \<noteq> Inl (Error ''Valid note ID is required'')"
  proof (cases "updates_convert rt request")
    case True
    from conv [OF this] sends show ?thesis by blast
  next
    case False
    then have "update_case rt fetch c request = ([], Inl TypeError)"
      using n
      by (auto simp: update_case_def Let_def updates_convert_def returns_def split: sum.splits
          dest: js_String_Inl js_Number_Inl)
    then show ?thesis by simp
  qed
qed

lemma delete_case_guard:
  "(js_Number rt (arg request ''noteId'') = Inr n \<and> invalid_noteId n \<longrightarrow>
      delete_case rt fetch c request = ([], Inl (Error ''Valid note ID is required'')))
   \<and> (js_Number rt (arg request ''noteId'') = Inr n \<and> \<not> invalid_noteId n \<longrightarrow>
      sent_one_to (fst (delete_case rt fetch c request))
        (baseUrl c @ ''/api/trpc/notes.deleteMany?batch=1'')
      \<and> snd (delete_case rt fetch c request) \<noteq> Inl (Error ''Valid note ID is required''))"
proof (intro conjI impI; elim conjE)
  assume "js_Number rt (arg request ''noteId'') = Inr n" "invalid_noteId n"
  then show "delete_case rt fetch c request = ([], Inl (Error ''Valid note ID is required''))"
    by (simp add: delete_case_def)
next
  assume n: "js_Number rt (arg request ''noteId'') = Inr n" "\<not> invalid_noteId n"
  then have u: "delete_case rt fetch c request =
     (case deleteNote fetch c n of
        (reqs, Inl e) \<Rightarrow> (reqs, Inl e)
      | (reqs, Inr u) \<Rightarrow>
          (reqs, Inr [TextBlock (''Successfully deleted note '' @ num_to_string rt n)]))"
    by (simp add: delete_case_def del: append.simps)
  show "sent_one_to (fst (delete_case rt fetch c request))
          (baseUrl c @ ''/api/trpc/notes.deleteMany?batch=1'')"
    unfolding u by (simp only: fst_outcome_case deleteNote_valid)
  show "snd (delete_case rt fetch c request) \<noteq> Inl (Error ''Valid note ID is required'')"
    unfolding u
    apply (simp only: snd_outcome_case)
    apply (rule relay_not_error)
    apply (rule deleteNote_valid [THEN conjunct2])
    done
qed

lemma archive_case_guard:
  "(js_Number rt (arg request ''noteId'') = Inr n \<and> invalid_noteId n \<longrightarrow>
      archive_case rt fetch c request = ([], Inl (Error ''Valid note ID is required'')))
   \<and> (js_Number rt (arg request ''noteId'') = Inr n \<and> \<not> invalid_noteId n \<longrightarrow>
      sent_one_to (fst (archive_case rt fetch c request))
        (baseUrl c @ ''/api/trpc/notes.upsert?batch=1'')
      \<and> snd (archive_case rt fetch c request) \<noteq> Inl (Error ''Valid note ID is required''))"
proof (intro conjI impI; elim conjE)
  assume "js_Number rt (arg request ''noteId'') = Inr n" "invalid_noteId n"
  then show "archive_case rt fetch c request = ([], Inl (Error ''Valid note ID is required''))"
    by (simp add: archive_case_def)
next
  assume n: "js_Number rt (arg request ''noteId'') = Inr n" "\<not> invalid_noteId n"
  then have u: "archive_case rt fetch c request =
     (case updateNote fetch c n [(''isArchived'', Bool True)] of
        (reqs, Inl e) \<Rightarrow> (reqs, Inl e)
      | (reqs, Inr u) \<Rightarrow>
          (reqs, Inr [TextBlock (''Successfully ''
                       @ (if name request = ''complete_blinko_todo'' then ''completed''
                          else ''archived'')
                       @ '' note '' @ num_to_string rt n)]))"
    by (simp add: archive_case_def archiveNote_def Let_def del: append.simps)
  show "sent_one_to (fst (archive_case rt fetch c request))
          (baseUrl c @ ''/api/trpc/notes.upsert?batch=1'')"
    unfolding u by (simp only: fst_outcome_case updateNote_valid)
  show "snd (archive_case rt fetch c request) \<noteq> Inl (Error ''Valid note ID is required'')"
    unfolding u
    apply (simp only: snd_outcome_case)
    apply (rule relay_not_error)
    apply (rule updateNote_valid [THEN conjunct2])
    done
qed

lemma share_case_guard:
  "(js_Number rt (arg request ''noteId'') = Inr n \<and> invalid_noteId n \<longrightarrow>
      share_case rt fetch c request = ([], Inl (Error ''Valid note ID is required'')))
   \<and> (js_Number rt (arg request ''noteId'') = Inr n \<and> \<not> invalid_noteId n \<longrightarrow>
        snd (share_case rt fetch c request) \<noteq> Inl (Error ''Valid note ID is required'')
      \<and> (password_accepted rt request
           \<longrightarrow> sent_one_to (fst (share_case rt fetch c request))
                 (baseUrl c @ ''/api/v1/note/share'')))"
proof (intro conjI impI; elim conjE)
  assume "js_Number rt (arg request ''noteId'') = Inr n" "invalid_noteId n"
  then show "share_case rt fetch c request = ([], Inl (Error ''Valid note ID is required''))"
    by (simp add: share_case_def)
next
  assume n: "js_Number rt (arg request ''noteId'') = Inr n" "\<not> invalid_noteId n"
  show "snd (share_case rt fetch c request) \<noteq> Inl (Error ''Valid note ID is required'')"
  proof (cases "passwordStr rt request")
    case (Inl e)
    then have "e = TypeError"
      by (auto simp: passwordStr_def split: if_splits dest: js_String_Inl)
    with Inl n show ?thesis
      unfolding share_case_def Let_def
      apply (fold passwordStr_def)
      apply simp
      done
  next
    case (Inr s)
    obtain reqs res where sn: "shareNote rt fetch c
        \<lparr>s_id = n, s_isCancel = Bool (js_Boolean (arg request ''isCancel'')),
         s_password = Str s\<rparr> = (reqs, res)"
      by (cases "shareNote rt fetch c
        \<lparr>s_id = n, s_isCancel = Bool (js_Boolean (arg request ''isCancel'')),
         s_password = Str s\<rparr>")
    with shareNote_valid [of rt fetch c "\<lparr>s_id = n,
        s_isCancel = Bool (js_Boolean (arg request ''isCancel'')), s_password = Str s\<rparr>"]
    have v: "res \<noteq> Inl (Error ''Valid note ID is required'')" by simp
    show ?thesis
      unfolding share_case_def Let_def
      apply (fold passwordStr_def)
      using v n Inr by (auto simp add: sn split: sum.splits)
  qed
next
  assume n: "js_Number rt (arg request ''noteId'') = Inr n" "\<not> invalid_noteId n"
    and pw: "password_accepted rt request"
  from pw obtain s where s: "passwordStr rt request = Inr s" "\<not> (s \<noteq> [] \<and> \<not> six_digits s)"
    by (auto simp: password_accepted_def split: sum.splits)
  obtain reqs res where sn: "shareNote rt fetch c
      \<lparr>s_id = n, s_isCancel = Bool (js_Boolean (arg request ''isCancel'')),
       s_password = Str s\<rparr> = (reqs, res)"
    by (cases "shareNote rt fetch c
      \<lparr>s_id = n, s_isCancel = Bool (js_Boolean (arg request ''isCancel'')),
       s_password = Str s\<rparr>")
  with shareNote_valid [of rt fetch c "\<lparr>s_id = n,
      s_isCancel = Bool (js_Boolean (arg request ''isCancel'')), s_password = Str s\<rparr>"]
  have v: "sent_one_to reqs (baseUrl c @ ''/api/v1/note/share'')" by simp
  show "sent_one_to (fst (share_case rt fetch c request)) (baseUrl c @ ''/api/v1/note/share'')"
    unfolding share_case_def Let_def
    apply (fold passwordStr_def)
    apply (simp only: n s sum.case if_False sn)
    using v by (auto split: sum.splits)
qed

text \<open>
  C3, as stated, fails: the note id \<open>0\<close> coerces to a finite number, yet the check rejects
  it, since \<open>!noteId\<close> holds of zero.
\<close>

theorem noteId_zero_counterexample:
  "js_Number test_runtime (Num (Fin 0)) = Inr (Fin 0) \<and> is_finite (Fin 0)
   \<and> handle test_runtime (test_fetch 200 ''{}'') ''example.com'' ''k''
        \<lparr>name = ''update_blinko_note'', arguments = Some [(''noteId'', Num (Fin 0))]\<rparr>
       = ([], Inl (Error ''Valid note ID is required''))"
  by (simp add: handle_def new_BlinkoClient_def normalizeDomain_def strip_trailing_slash_def
      startsWith_def update_case_def invalid_noteId_def num_truthy_def isNaN_def js_Number_def
      is_finite_def arg_def get_prop_def)

text \<open>
  C3, amended: with the server configured, each of the five tools that take a note id
  fails with the error \<open>Valid note ID is required\<close>, having sent nothing, when the supplied
  id coerces to \<open>NaN\<close> or to zero. When it coerces to a finite number other than zero the
  note-id check passes, and the one request of the tool's client call is sent, provided
  that, for \<open>update_blinko_note\<close>, the supplied \<open>content\<close> and \<open>type\<close> convert and, for
  \<open>share_blinko_note\<close>, the password converts to the empty text or to six digits.
\<close>

theorem noteId_guard:
  assumes "domain \<noteq> []" and "key \<noteq> []"
    and "name request \<in> {''update_blinko_note'', ''delete_blinko_note'', ''archive_blinko_note'',
                          ''complete_blinko_todo'', ''share_blinko_note''}"
  shows "(js_Number rt (arg request ''noteId'') = Inr NaN
            \<or> js_Number rt (arg request ''noteId'') = Inr (Fin 0)
           \<longrightarrow> handle rt fetch domain key request = ([], Inl (Error ''Valid note ID is required'')))
       \<and> ((\<exists>q. q \<noteq> 0 \<and> js_Number rt (arg request ''noteId'') = Inr (Fin q))
           \<longrightarrow> snd (handle rt fetch domain key request) \<noteq> Inl (Error ''Valid note ID is required'')
             \<and> ((name request = ''update_blinko_note'' \<longrightarrow> updates_convert rt request)
                  \<and> (name request = ''share_blinko_note'' \<longrightarrow> password_accepted rt request)
                 \<longrightarrow> (\<exists>u. normalizeDomain domain = Inr u
                        \<and> sent_one_to (fst (handle rt fetch domain key request))
                             (u @ tool_path (name request)))))"
proof -
  from handle_tool [OF assms(1,2), where request = request and rt = rt and fetch = fetch]
  obtain u where u: "normalizeDomain domain = Inr u"
    and h: "name request = ''update_blinko_note'' \<longrightarrow>
          handle rt fetch domain key request
            = update_case rt fetch \<lparr>baseUrl = u, apiKey = key\<rparr> request"
       "name request = ''delete_blinko_note'' \<longrightarrow>
          handle rt fetch domain key request
            = delete_case rt fetch \<lparr>baseUrl = u, apiKey = key\<rparr> request"
       "name request = ''archive_blinko_note'' \<or> name request = ''complete_blinko_todo'' \<longrightarrow>
          handle rt fetch domain key request
            = archive_case rt fetch \<lparr>baseUrl = u, apiKey = key\<rparr> request"
       "name request = ''share_blinko_note'' \<longrightarrow>
          handle rt fetch domain key request
            = share_case rt fetch \<lparr>baseUrl = u, apiKey = key\<rparr> request"
    by (elim exE conjE)
  let ?c = "\<lparr>baseUrl = u, apiKey = key\<rparr>"
  have fin: "\<not> invalid_noteId (Fin q)" if "q \<noteq> 0" for q
    using that by (simp add: invalid_noteId_iff)
  have inv: "invalid_noteId NaN" "invalid_noteId (Fin 0)"
    by (simp_all add: invalid_noteId_iff)
  from assms(3) consider
      "name request = ''update_blinko_note''" | "name request = ''delete_blinko_note''"
    | "name request = ''archive_blinko_note'' \<or> name request = ''complete_blinko_todo''"
    | "name request = ''share_blinko_note''"
    by blast
  then show ?thesis
  proof cases
    case 1
    with h(1) have hh: "handle rt fetch domain key request = update_case rt fetch ?c request"
      by simp
    show ?thesis
      unfolding hh
      using update_case_rejects [of rt request _ fetch ?c]
        update_case_passes [of rt request _ fetch ?c] fin inv 1 u
      by (auto simp: tool_path_def)
  next
    case 2
    with h(2) have hh: "handle rt fetch domain key request = delete_case rt fetch ?c request"
      by simp
    show ?thesis
      unfolding hh
      using delete_case_guard [of rt request _ fetch ?c] fin inv 2 u
      by (auto simp: tool_path_def)
  next
    case 3
    with h(3) have hh: "handle rt fetch domain key request = archive_case rt fetch ?c request"
      by simp
    show ?thesis
      unfolding hh
      using archive_case_guard [of rt request _ fetch ?c] fin inv 3 u
      by (auto simp: tool_path_def)
  next
    case 4
    with h(4) have hh: "handle rt fetch domain key request = share_case rt fetch ?c request"
      by simp
    show ?thesis
      unfolding hh
      using share_case_guard [of rt request _ fetch ?c] fin inv 4 u
      by (auto simp: tool_path_def)
  qed
qed

theorem noteId_guard_witness:
  "handle test_runtime (test_fetch 200 ''{}'') ''example.com'' ''k''
        \<lparr>name = ''delete_blinko_note'', arguments = None\<rparr>
       = ([], Inl (Error ''Valid note ID is required''))
   \<and> sent_one_to (fst (handle test_runtime (test_fetch 200 ''{}'') ''example.com'' ''k''
        \<lparr>name = ''update_blinko_note'',
         arguments = Some [(''noteId'', Num (Fin 7)), (''content'', Str ''done'')]\<rparr>))
       ''https://example.com/api/trpc/notes.upsert?batch=1''
   \<and> sent_one_to (fst (handle test_runtime (test_fetch 200 ''{}'') ''example.com'' ''k''
        \<lparr>name = ''share_blinko_note'',
         arguments = Some [(''noteId'', Num (Fin 7)), (''password'', Str ''123456'')]\<rparr>))
       ''https://example.com/api/v1/note/share''"
  using noteId_guard [where domain = "''example.com''" and key = "''k''" and rt = test_runtime
      and fetch = "test_fetch 200 ''{}''"
      and request = "\<lparr>name = ''delete_blinko_note'', arguments = None\<rparr>"]
    noteId_guard [where domain = "''example.com''" and key = "''k''" and rt = test_runtime
      and fetch = "test_fetch 200 ''{}''"
      and request = "\<lparr>name = ''update_blinko_note'',
         arguments = Some [(''noteId'', Num (Fin 7)), (''content'', Str ''done'')]\<rparr>"]
    noteId_guard [where domain = "''example.com''" and key = "''k''" and rt = test_runtime
      and fetch = "test_fetch 200 ''{}''"
      and request = "\<lparr>name = ''share_blinko_note'',
         arguments = Some [(''noteId'', Num (Fin 7)), (''password'', Str ''123456'')]\<rparr>"]
  by (simp add: js_Number_def arg_def get_prop_def passwordStr_def js_Boolean_def six_digits_def
      updates_convert_def password_accepted_def returns_def tool_path_def normalizeDomain_def
      strip_trailing_slash_def startsWith_def)

subsection \<open>The content check of the upsert tools\<close>

lemma handle_upsert:
  assumes "domain \<noteq> []" "key \<noteq> []"
    and "name request \<in> {''upsert_blinko_flash_note'', ''upsert_blinko_note'', ''upsert_blinko_todo''}"
  shows "\<exists>u. handle rt fetch domain key request
           = upsert_case rt fetch \<lparr>baseUrl = u, apiKey = key\<rparr> request"
  using new_BlinkoClient_Inr [OF assms(1), of key] assms by (auto simp: handle_def)

lemma fst_upsertNote:
  "content \<noteq> [] \<Longrightarrow> type \<noteq> Undefined \<Longrightarrow>
   fst (upsertNote rt fetch c content type) = [upsertNote_request c content type]"
  by (simp add: upsertNote_def Let_def split: option.splits)

lemma fst_upsert_case:
  "js_String rt (arg request ''content'') = Inr content \<Longrightarrow> content \<noteq> [] \<Longrightarrow>
   fst (upsert_case rt fetch c request)
     = [upsertNote_request c content (Num (upsert_type (name request)))]"
  unfolding upsert_case_def upsert_type_def
  by (simp only: Let_def if_False sum.case fst_outcome_case) (simp add: fst_upsertNote)

text \<open>
  C4 says that an upsert tool called without \<open>content\<close> fails before any remote call. The
  handler applies \<open>String\<close> to the missing argument, which gives the text \<open>undefined\<close>; that
  text is not empty, so the check \<open>!content\<close> passes and a note with the content
  \<open>undefined\<close> is sent to the remote service, with the type of the tool.
\<close>

theorem upsert_missing_content:
  assumes "domain \<noteq> []" and "key \<noteq> []"
    and "name request \<in> {''upsert_blinko_flash_note'', ''upsert_blinko_note'', ''upsert_blinko_todo''}"
    and "arg request ''content'' = Undefined"
  shows "\<exists>req. fst (handle rt fetch domain key request) = [req]
           \<and> req_body req = Some (Obj [(''content'', Str ''undefined''),
                                        (''type'', Num (upsert_type (name request)))])"
proof -
  from handle_upsert [OF assms(1-3)] obtain u where
    h: "handle rt fetch domain key request
          = upsert_case rt fetch \<lparr>baseUrl = u, apiKey = key\<rparr> request" by blast
  have c: "js_String rt (arg request ''content'') = Inr ''undefined''"
    using assms(4) by simp
  have "''undefined'' \<noteq> []" by simp
  from fst_upsert_case [OF c this] show ?thesis
    unfolding h
    by (simp add: upsertNote_request_def Let_def upsert_type_def is_finite_def)
qed

theorem upsert_missing_content_witness:
  "\<exists>req. fst (handle test_runtime (test_fetch 200 ''{}'') ''example.com'' ''k''
                 \<lparr>name = ''upsert_blinko_note'', arguments = Some []\<rparr>) = [req]
         \<and> req_body req = Some (Obj [(''content'', Str ''undefined''), (''type'', Num (Fin 1))])"
  using upsert_missing_content [where domain = "''example.com''" and key = "''k''"
      and rt = test_runtime and fetch = "test_fetch 200 ''{}''"
      and request = "\<lparr>name = ''upsert_blinko_note'', arguments = Some []\<rparr>"]
  by (simp add: arg_def get_prop_def upsert_type_def)

subsection \<open>The type written by an update\<close>

text \<open>
  C9 says that a type sent on a write is 0, 1 or 2. The three upsert tools send their fixed
  type, but \<open>update_blinko_note\<close> sends \<open>Number(type)\<close> for whatever \<open>type\<close> the caller
  supplied: the handler has no check of it, where the search handler checks its own
  \<open>type\<close> against 0, 1 and 2. With \<open>type = 5\<close> the payload carries \<open>type: 5\<close>.
\<close>

theorem update_type_forwarded:
  assumes "domain \<noteq> []" and "key \<noteq> []" and "name request = ''update_blinko_note''"
    and "js_Number rt (arg request ''noteId'') = Inr noteId" and "\<not> invalid_noteId noteId"
    and "arg request ''content'' \<noteq> Undefined \<longrightarrow> returns (js_String rt (arg request ''content''))"
    and "arg request ''type'' \<noteq> Undefined"
    and "js_Number rt (arg request ''type'') = Inr type"
  shows "\<exists>req fields.
           fst (handle rt fetch domain key request) = [req]
           \<and> req_body req = Some (Obj [(''0'', Obj [(''json'', Obj fields)])])
           \<and> map_of fields ''type'' = Some (to_json (Num type))"
proof -
  from handle_update [OF assms(1-3)] obtain blinko where
    h: "handle rt fetch domain key request = update_case rt fetch blinko request" by blast
  from assms(6) obtain content where
    c: "arg request ''content'' \<noteq> Undefined
          \<longrightarrow> js_String rt (arg request ''content'') = Inr content"
    by (auto simp: returns_def split: sum.splits)
  have t: "arg request ''type'' \<noteq> Undefined \<longrightarrow> js_Number rt (arg request ''type'') = Inr type"
    using assms(8) by simp
  have f: "fst (handle rt fetch domain key request)
             = [updateNote_request blinko noteId (update_fields request content type)]"
    unfolding h update_case_sends [OF assms(4,5) c t]
    by (simp only: fst_outcome_case fst_updateNote)
  show ?thesis
    unfolding f using assms(7)
    by (simp add: updateNote_request_def update_fields_def spread_def Let_def)
qed

theorem update_type_forwarded_witness:
  "\<exists>req. fst (handle test_runtime (test_fetch 200 ''{}'') ''example.com'' ''k''
               \<lparr>name = ''update_blinko_note'',
                arguments = Some [(''noteId'', Num (Fin 5)), (''type'', Num (Fin 5))]\<rparr>) = [req]
     \<and> (\<exists>fields. req_body req = Some (Obj [(''0'', Obj [(''json'', Obj fields)])])
           \<and> map_of fields ''type'' = Some (Num (Fin 5)))"
  using update_type_forwarded [where domain = "''example.com''" and key = "''k''"
      and rt = test_runtime and fetch = "test_fetch 200 ''{}''"
      and noteId = "Fin 5" and type = "Fin 5"
      and request = "\<lparr>name = ''update_blinko_note'',
                arguments = Some [(''noteId'', Num (Fin 5)), (''type'', Num (Fin 5))]\<rparr>"]
  by (simp add: arg_def get_prop_def js_Number_def is_finite_def invalid_noteId_iff)

subsection \<open>Completing a todo is archiving it\<close>

lemma arg_name_update [simp]: "arg (request\<lparr>name := n\<rparr>) k = arg request k"
  by (simp add: arg_def)

lemma archive_case_throws:
  "js_Number rt (arg request ''noteId'') = Inl e \<Longrightarrow> archive_case rt fetch c request = ([], Inl e)"
  by (simp add: archive_case_def)

lemma archive_case_unfold:
  assumes "js_Number rt (arg request ''noteId'') = Inr n"
  shows "archive_case rt fetch c request =
     (if invalid_noteId n
      then ([], Inl (Error ''Valid note ID is required''))
      else ([updateNote_request c n [(''isArchived'', Bool True)]],
            case snd (updateNote fetch c n [(''isArchived'', Bool True)]) of
              Inl e \<Rightarrow> Inl e
            | Inr u \<Rightarrow>
                Inr [TextBlock (''Successfully ''
                       @ (if name request = ''complete_blinko_todo'' then ''completed''
                          else ''archived'')
                       @ '' note '' @ num_to_string rt n)]))"
proof -
  obtain reqs res where
    u: "updateNote fetch c n [(''isArchived'', Bool True)] = (reqs, res)"
    by (cases "updateNote fetch c n [(''isArchived'', Bool True)]")
  with fst_updateNote [of fetch c n "[(''isArchived'', Bool True)]"]
  have "reqs = [updateNote_request c n [(''isArchived'', Bool True)]]" by simp
  with u assms show ?thesis
    by (simp add: archive_case_def archiveNote_def Let_def split: sum.splits)
qed

text \<open>
  C6: \<open>complete_blinko_todo\<close> and \<open>archive_blinko_note\<close>, called with the same arguments,
  issue the same requests; they fail with the same error or succeed with confirmations
  that differ in the one word, \<open>completed\<close> for \<open>archived\<close>; and when the call is valid the
  one request is the single-item batched update of the note with \<open>isArchived: true\<close>.
\<close>

theorem complete_is_archive:
  "fst (handle rt fetch domain key (request\<lparr>name := ''complete_blinko_todo''\<rparr>))
     = fst (handle rt fetch domain key (request\<lparr>name := ''archive_blinko_note''\<rparr>))
   \<and> (case (snd (handle rt fetch domain key (request\<lparr>name := ''complete_blinko_todo''\<rparr>)),
             snd (handle rt fetch domain key (request\<lparr>name := ''archive_blinko_note''\<rparr>))) of
         (Inl e, Inl e') \<Rightarrow> e = e'
       | (Inr c, Inr a) \<Rightarrow>
           (\<exists>n. js_Number rt (arg request ''noteId'') = Inr n
              \<and> c = [TextBlock (''Successfully completed note '' @ num_to_string rt n)]
              \<and> a = [TextBlock (''Successfully archived note '' @ num_to_string rt n)])
       | _ \<Rightarrow> False)
   \<and> (domain \<noteq> [] \<and> key \<noteq> [] \<and> js_Number rt (arg request ''noteId'') = Inr noteId
        \<and> \<not> invalid_noteId noteId
        \<longrightarrow> (\<exists>req u. fst (handle rt fetch domain key (request\<lparr>name := ''complete_blinko_todo''\<rparr>))
                         = [req]
                  \<and> normalizeDomain domain = Inr u
                  \<and> req_url req = u @ ''/api/trpc/notes.upsert?batch=1''
                  \<and> req_body req = Some (Obj [(''0'', Obj [(''json'', Obj
                        [(''id'', to_json (Num noteId)), (''isArchived'', Bool True)])])])))"
proof (cases "domain \<noteq> [] \<and> key \<noteq> []")
  case False
  then show ?thesis by (auto simp: handle_def)
next
  case True
  then have d: "domain \<noteq> []" and k: "key \<noteq> []" by simp_all
  from normalizeDomain_Inr [OF d] obtain u where u: "normalizeDomain domain = Inr u" ..
  let ?c = "\<lparr>baseUrl = u, apiKey = key\<rparr>"
  have hc: "handle rt fetch domain key (request\<lparr>name := ''complete_blinko_todo''\<rparr>)
              = archive_case rt fetch ?c (request\<lparr>name := ''complete_blinko_todo''\<rparr>)"
    and ha: "handle rt fetch domain key (request\<lparr>name := ''archive_blinko_note''\<rparr>)
              = archive_case rt fetch ?c (request\<lparr>name := ''archive_blinko_note''\<rparr>)"
    using d k u by (simp_all add: handle_def new_BlinkoClient_def)
  show ?thesis
  proof (cases "js_Number rt (arg request ''noteId'')")
    case (Inl e)
    then show ?thesis
      unfolding hc ha by (simp add: archive_case_throws)
  next
    case (Inr n)
    then have n: "js_Number rt (arg (request\<lparr>name := x\<rparr>) ''noteId'') = Inr n" for x
      by simp
    show ?thesis
      unfolding hc ha archive_case_unfold [OF n]
      using u Inr by (simp add: updateNote_request_def Let_def spread_def split: sum.splits)
  qed
qed

theorem complete_is_archive_witness:
  "fst (handle test_runtime (test_fetch 204 []) ''example.com'' ''k''
          \<lparr>name = ''complete_blinko_todo'', arguments = Some [(''noteId'', Num (Fin 7))]\<rparr>)
   = fst (handle test_runtime (test_fetch 204 []) ''example.com'' ''k''
          \<lparr>name = ''archive_blinko_note'', arguments = Some [(''noteId'', Num (Fin 7))]\<rparr>)
   \<and> (\<exists>req. fst (handle test_runtime (test_fetch 204 []) ''example.com'' ''k''
                   \<lparr>name = ''complete_blinko_todo'',
                    arguments = Some [(''noteId'', Num (Fin 7))]\<rparr>) = [req]
          \<and> req_url req = ''https://example.com/api/trpc/notes.upsert?batch=1''
          \<and> req_body req = Some (Obj [(''0'', Obj [(''json'', Obj
                [(''id'', Num (Fin 7)), (''isArchived'', Bool True)])])]))"
proof -
  let ?request = "\<lparr>name = ''archive_blinko_note'', arguments = Some [(''noteId'', Num (Fin 7))]\<rparr>"
  note t = complete_is_archive [where domain = "''example.com''" and key = "''k''"
      and rt = test_runtime and fetch = "test_fetch 204 []" and request = ?request
      and noteId = "Fin 7"]
  have n: "js_Number test_runtime (arg ?request ''noteId'') = Inr (Fin 7)"
    by (simp add: js_Number_def arg_def get_prop_def)
  have u: "normalizeDomain ''example.com'' = Inr ''https://example.com''"
    by (simp add: normalizeDomain_def strip_trailing_slash_def startsWith_def)
  from t have same: "fst (handle test_runtime (test_fetch 204 []) ''example.com'' ''k''
          (?request\<lparr>name := ''complete_blinko_todo''\<rparr>))
   = fst (handle test_runtime (test_fetch 204 []) ''example.com'' ''k''
          (?request\<lparr>name := ''archive_blinko_note''\<rparr>))"
    by (rule conjunct1)
  have hyp: "''example.com'' \<noteq> [] \<and> ''k'' \<noteq> []
        \<and> js_Number test_runtime (arg ?request ''noteId'') = Inr (Fin 7)
        \<and> \<not> invalid_noteId (Fin 7)"
    by (simp add: n invalid_noteId_iff)
  from t [THEN conjunct2, THEN conjunct2, THEN mp, OF hyp] obtain req v where
    r: "fst (handle test_runtime (test_fetch 204 []) ''example.com'' ''k''
              (?request\<lparr>name := ''complete_blinko_todo''\<rparr>)) = [req]"
       "normalizeDomain ''example.com'' = Inr v"
       "req_url req = v @ ''/api/trpc/notes.upsert?batch=1''"
       "req_body req = Some (Obj [(''0'', Obj [(''json'', Obj
           [(''id'', to_json (Num (Fin 7))), (''isArchived'', Bool True)])])])"
    by (elim exE conjE)
  from r(2) u have v: "v = ''https://example.com''" by simp
  have c0: "fst (handle test_runtime (test_fetch 204 []) ''example.com'' ''k''
          \<lparr>name = ''complete_blinko_todo'', arguments = Some [(''noteId'', Num (Fin 7))]\<rparr>)
   = fst (handle test_runtime (test_fetch 204 []) ''example.com'' ''k''
          \<lparr>name = ''archive_blinko_note'', arguments = Some [(''noteId'', Num (Fin 7))]\<rparr>)"
    using same by simp
  have c1: "fst (handle test_runtime (test_fetch 204 []) ''example.com'' ''k''
          \<lparr>name = ''complete_blinko_todo'', arguments = Some [(''noteId'', Num (Fin 7))]\<rparr>)
      = [req]"
    using r(1) by simp
  have c2: "req_url req = ''https://example.com/api/trpc/notes.upsert?batch=1''"
    using r(3) v by simp
  have c3: "req_body req = Some (Obj [(''0'', Obj [(''json'', Obj
                [(''id'', Num (Fin 7)), (''isArchived'', Bool True)])])])"
    using r(4) by (simp add: is_finite_def)
  show ?thesis
    by (intro conjI exI [of _ req]) (rule c0 c1 c2 c3)+
qed

subsection \<open>The type filter of a search\<close>

lemma handle_search:
  assumes "domain \<noteq> []" "key \<noteq> []" "name request = ''search_blinko_notes''"
  shows "\<exists>blinko. handle rt fetch domain key request = search_case rt fetch blinko request"
  using new_BlinkoClient_Inr [OF assms(1), of key] assms by (auto simp: handle_def)

lemma fst_searchNotes: "fst (searchNotes rt fetch c params) = [searchNotes_request c params]"
  by (simp add: searchNotes_def Let_def split: option.splits)

lemma nullish_defined: "b \<noteq> Undefined \<Longrightarrow> nullish a b \<noteq> Undefined"
  by (simp add: nullish_def)

lemma nullish_Num: "nullish (Num n) b = Num n"
  by (simp add: nullish_def)

lemma searchNotes_request_type:
  assumes "p_type params = Num (Fin q)"
  shows "\<exists>fields. req_body (searchNotes_request c params) = Some (Obj fields)
           \<and> map_of fields ''type'' = Some (Num (Fin q))"
  using assms
  by (simp add: searchNotes_request_def Let_def nullish_defined nullish_Num is_finite_def)

lemma date_arg_converts:
  "js_Boolean v \<longrightarrow> returns (js_String rt v) \<Longrightarrow>
   \<exists>d. (if js_Boolean v
        then (case js_String rt v of Inl e \<Rightarrow> Inl e | Inr s \<Rightarrow> Inr (Str s))
        else Inr Null) = Inr d"
  by (cases "js_String rt v") (auto simp: returns_def)

text \<open>
  C7: when \<open>search_blinko_notes\<close> is called with a search text that converts to a text
  that is not empty, and its \<open>size\<close>, \<open>startDate\<close> and \<open>endDate\<close> convert, the query is sent,
  and the \<open>type\<close> of the query is the supplied \<open>type\<close> argument if that is exactly the
  number 0, 1 or 2, and \<open>-1\<close> in every other case, the omitted argument among them.
\<close>

theorem search_type_filter:
  assumes "domain \<noteq> []" and "key \<noteq> []" and "name request = ''search_blinko_notes''"
    and "js_String rt (arg request ''searchText'') = Inr searchText" and "searchText \<noteq> []"
    and "search_args_convert rt request"
  shows "\<exists>req fields.
           fst (handle rt fetch domain key request) = [req]
           \<and> req_body req = Some (Obj fields)
           \<and> map_of fields ''type''
               = Some (if arg request ''type'' = Num (Fin 0) \<or> arg request ''type'' = Num (Fin 1)
                          \<or> arg request ''type'' = Num (Fin 2)
                       then arg request ''type'' else Num (Fin (- 1)))"
proof -
  from handle_search [OF assms(1-3)] obtain blinko where
    h: "handle rt fetch domain key request = search_case rt fetch blinko request" by blast
  define noteType where "noteType =
    (if arg request ''type'' = Num (Fin 0) \<or> arg request ''type'' = Num (Fin 1)
        \<or> arg request ''type'' = Num (Fin 2)
     then arg request ''type'' else Num (Fin (- 1)))"
  then obtain q where q: "noteType = Num (Fin q)" by (auto split: if_splits)
  from assms(6) obtain sizeNum where sz: "js_Number rt (arg request ''size'') = Inr sizeNum"
    by (auto simp: search_args_convert_def returns_def split: sum.splits)
  from assms(6) obtain sd where
    sd: "(if js_Boolean (arg request ''startDate'')
          then (case js_String rt (arg request ''startDate'') of
                  Inl e \<Rightarrow> Inl e | Inr s \<Rightarrow> Inr (Str s))
          else Inr Null) = Inr sd"
    using date_arg_converts [of "arg request ''startDate''" rt]
    by (auto simp: search_args_convert_def)
  from assms(6) obtain ed where
    ed: "(if js_Boolean (arg request ''endDate'')
          then (case js_String rt (arg request ''endDate'') of
                  Inl e \<Rightarrow> Inl e | Inr s \<Rightarrow> Inr (Str s))
          else Inr Null) = Inr ed"
    using date_arg_converts [of "arg request ''endDate''" rt]
    by (auto simp: search_args_convert_def)
  define params where "params =
     \<lparr>p_size = (if num_truthy sizeNum then Num sizeNum else Undefined),
      p_type = noteType,
      p_isArchived = Bool (js_Boolean (arg request ''isArchived'')),
      p_isRecycle = Bool (js_Boolean (arg request ''isRecycle'')),
      p_searchText = searchText,
      p_isUseAiQuery = Bool (arg request ''isUseAiQuery'' \<noteq> Bool False),
      p_startDate = sd,
      p_endDate = ed,
      p_hasTodo = Bool (js_Boolean (arg request ''hasTodo''))\<rparr>"
  have "fst (search_case rt fetch blinko request) = fst (searchNotes rt fetch blinko params)"
    unfolding search_case_def params_def noteType_def
    by (simp only: Let_def assms(4,5) sz sd ed sum.case if_False fst_outcome_case)
  then have f: "fst (handle rt fetch domain key request) = [searchNotes_request blinko params]"
    by (simp add: h fst_searchNotes)
  have "p_type params = Num (Fin q)" by (simp add: params_def q)
  from searchNotes_request_type [OF this, of blinko] f q show ?thesis
    unfolding noteType_def by auto
qed

theorem search_type_filter_witness:
  "(\<exists>req fields.
      fst (handle test_runtime (test_fetch 200 ''[]'') ''example.com'' ''k''
             \<lparr>name = ''search_blinko_notes'',
              arguments = Some [(''searchText'', Str ''project''), (''type'', Num (Fin 5))]\<rparr>) = [req]
      \<and> req_body req = Some (Obj fields) \<and> map_of fields ''type'' = Some (Num (Fin (- 1))))
   \<and> (\<exists>req fields.
      fst (handle test_runtime (test_fetch 200 ''[]'') ''example.com'' ''k''
             \<lparr>name = ''search_blinko_notes'',
              arguments = Some [(''searchText'', Str ''project''), (''type'', Num (Fin 2))]\<rparr>) = [req]
      \<and> req_body req = Some (Obj fields) \<and> map_of fields ''type'' = Some (Num (Fin 2)))
   \<and> (\<exists>req fields.
      fst (handle test_runtime (test_fetch 200 ''[]'') ''example.com'' ''k''
             \<lparr>name = ''search_blinko_notes'',
              arguments = Some [(''searchText'', Str ''project'')]\<rparr>) = [req]
      \<and> req_body req = Some (Obj fields) \<and> map_of fields ''type'' = Some (Num (Fin (- 1))))"
  using search_type_filter [where domain = "''example.com''" and key = "''k''"
      and rt = test_runtime and fetch = "test_fetch 200 ''[]''" and searchText = "''project''"
      and request = "\<lparr>name = ''search_blinko_notes'',
              arguments = Some [(''searchText'', Str ''project''), (''type'', Num (Fin 5))]\<rparr>"]
    search_type_filter [where domain = "''example.com''" and key = "''k''"
      and rt = test_runtime and fetch = "test_fetch 200 ''[]''" and searchText = "''project''"
      and request = "\<lparr>name = ''search_blinko_notes'',
              arguments = Some [(''searchText'', Str ''project''), (''type'', Num (Fin 2))]\<rparr>"]
    search_type_filter [where domain = "''example.com''" and key = "''k''"
      and rt = test_runtime and fetch = "test_fetch 200 ''[]''" and searchText = "''project''"
      and request = "\<lparr>name = ''search_blinko_notes'',
              arguments = Some [(''searchText'', Str ''project'')]\<rparr>"]
  by (simp add: arg_def get_prop_def search_args_convert_def returns_def js_Number_def
      js_Boolean_def)

text \<open>Where the conversion of \<open>size\<close> throws, no query is sent.\<close>

lemma search_throws_on_unconvertible_size:
  "handle test_runtime (test_fetch 200 ''[]'') ''example.com'' ''k''
     \<lparr>name = ''search_blinko_notes'',
      arguments = Some [(''searchText'', Str ''project''),
                        (''size'', Obj [(''toString'', Num (Fin 1))])]\<rparr>
   = ([], Inl TypeError)"
  by (simp add: handle_def new_BlinkoClient_def normalizeDomain_def strip_trailing_slash_def
      startsWith_def search_case_def Let_def js_Number_def arg_def get_prop_def)

section \<open>Responses that are not ok\<close>

lemma sublist_mid: "sublist s (p @ s @ q)"
  by simp

lemma sublist_end: "sublist t (p @ s @ q @ t)"
  unfolding sublist_def by (rule exI [of _ "p @ s @ q"], rule exI [of _ "[]"]) simp

lemma reports_request_failed: "reports resp (Inl (request_failed resp))"
  unfolding reports_def request_failed_def
  by (simp only: sum.case error.case sublist_mid sublist_end simp_thms)

lemma reports_update_failed:
  "reports resp (Inl (Error (''Failed to update note: '' @ show_nat (status resp) @ '': ''
                             @ resp_text resp)))"
  unfolding reports_def
  by (simp only: sum.case error.case sublist_mid sublist_end simp_thms)

lemma reports_delete_failed:
  "reports resp (Inl (Error (''Failed to delete note: '' @ show_nat (status resp) @ '': ''
                             @ resp_text resp)))"
  unfolding reports_def
  by (simp only: sum.case error.case sublist_mid sublist_end simp_thms)

lemma searchNotes_reports:
  "fetch (searchNotes_request c params) = Some resp \<Longrightarrow> \<not> ok resp \<Longrightarrow>
   searchNotes rt fetch c params = ([searchNotes_request c params], Inl (request_failed resp))"
  by (simp add: searchNotes_def Let_def)

lemma getDailyReviewNotes_reports:
  "fetch (getDailyReviewNotes_request c) = Some resp \<Longrightarrow> \<not> ok resp \<Longrightarrow>
   getDailyReviewNotes rt fetch c = ([getDailyReviewNotes_request c], Inl (request_failed resp))"
  by (simp add: getDailyReviewNotes_def Let_def)

lemma clearRecycleBin_reports:
  "fetch (clearRecycleBin_request c) = Some resp \<Longrightarrow> \<not> ok resp \<Longrightarrow>
   clearRecycleBin fetch c = ([clearRecycleBin_request c], Inl (request_failed resp))"
  by (simp add: clearRecycleBin_def Let_def)

lemma upsertNote_reports:
  "content \<noteq> [] \<Longrightarrow>
   fetch (upsertNote_request c content (if type = Undefined then Num (Fin 0) else type)) = Some resp
   \<Longrightarrow> \<not> ok resp \<Longrightarrow>
   upsertNote rt fetch c content type
     = ([upsertNote_request c content (if type = Undefined then Num (Fin 0) else type)],
        Inl (request_failed resp))"
  by (simp add: upsertNote_def Let_def)

lemma updateNote_reports:
  "fetch (updateNote_request c noteId updates) = Some resp \<Longrightarrow> \<not> ok resp \<Longrightarrow>
   updateNote fetch c noteId updates
     = ([updateNote_request c noteId updates],
        Inl (Error (''Failed to update note: '' @ show_nat (status resp) @ '': ''
                    @ resp_text resp)))"
  by (simp add: updateNote_def Let_def)

lemma deleteNote_reports:
  "fetch (deleteNote_request c noteId) = Some resp \<Longrightarrow> \<not> ok resp \<Longrightarrow>
   deleteNote fetch c noteId
     = ([deleteNote_request c noteId],
        Inl (Error (''Failed to delete note: '' @ show_nat (status resp) @ '': ''
                    @ resp_text resp)))"
  by (simp add: deleteNote_def Let_def)

lemma shareNote_reports:
  "fetch (shareNote_request c sparams) = Some resp \<Longrightarrow> \<not> ok resp \<Longrightarrow>
   shareNote rt fetch c sparams = ([shareNote_request c sparams], Inl (request_failed resp))"
  by (simp add: shareNote_def Let_def)

text \<open>
  C8: each operation of the client sends its one request, and when the response to that
  request is not \<open>ok\<close> the operation fails with an error whose message contains the status
  code and the body text of the response. (\<open>upsertNote\<close> sends its request when the content
  is not empty.)
\<close>

theorem non_2xx_surfaced:
  assumes "\<not> ok resp"
  shows "(fetch (searchNotes_request c params) = Some resp
            \<longrightarrow> fst (searchNotes rt fetch c params) = [searchNotes_request c params]
              \<and> reports resp (snd (searchNotes rt fetch c params)))
       \<and> (fetch (getDailyReviewNotes_request c) = Some resp
            \<longrightarrow> fst (getDailyReviewNotes rt fetch c) = [getDailyReviewNotes_request c]
              \<and> reports resp (snd (getDailyReviewNotes rt fetch c)))
       \<and> (fetch (clearRecycleBin_request c) = Some resp
            \<longrightarrow> fst (clearRecycleBin fetch c) = [clearRecycleBin_request c]
              \<and> reports resp (snd (clearRecycleBin fetch c)))
       \<and> (content \<noteq> []
            \<and> fetch (upsertNote_request c content
                       (if type = Undefined then Num (Fin 0) else type)) = Some resp
            \<longrightarrow> fst (upsertNote rt fetch c content type)
                  = [upsertNote_request c content (if type = Undefined then Num (Fin 0) else type)]
              \<and> reports resp (snd (upsertNote rt fetch c content type)))
       \<and> (fetch (updateNote_request c noteId updates) = Some resp
            \<longrightarrow> fst (updateNote fetch c noteId updates) = [updateNote_request c noteId updates]
              \<and> reports resp (snd (updateNote fetch c noteId updates)))
       \<and> (fetch (deleteNote_request c noteId) = Some resp
            \<longrightarrow> fst (deleteNote fetch c noteId) = [deleteNote_request c noteId]
              \<and> reports resp (snd (deleteNote fetch c noteId)))
       \<and> (fetch (updateNote_request c noteId [(''isArchived'', Bool True)]) = Some resp
            \<longrightarrow> fst (archiveNote fetch c noteId)
                  = [updateNote_request c noteId [(''isArchived'', Bool True)]]
              \<and> reports resp (snd (archiveNote fetch c noteId)))
       \<and> (fetch (shareNote_request c sparams) = Some resp
            \<longrightarrow> fst (shareNote rt fetch c sparams) = [shareNote_request c sparams]
              \<and> reports resp (snd (shareNote rt fetch c sparams)))"
proof (intro conjI impI)
  assume "fetch (searchNotes_request c params) = Some resp"
  from searchNotes_reports [where fetch = fetch, OF this assms]
  show "fst (searchNotes rt fetch c params) = [searchNotes_request c params]"
    and "reports resp (snd (searchNotes rt fetch c params))"
    by (simp_all only: fst_conv snd_conv reports_request_failed)
next
  assume "fetch (getDailyReviewNotes_request c) = Some resp"
  from getDailyReviewNotes_reports [where fetch = fetch, OF this assms]
  show "fst (getDailyReviewNotes rt fetch c) = [getDailyReviewNotes_request c]"
    and "reports resp (snd (getDailyReviewNotes rt fetch c))"
    by (simp_all only: fst_conv snd_conv reports_request_failed)
next
  assume "fetch (clearRecycleBin_request c) = Some resp"
  from clearRecycleBin_reports [where fetch = fetch, OF this assms]
  show "fst (clearRecycleBin fetch c) = [clearRecycleBin_request c]"
    and "reports resp (snd (clearRecycleBin fetch c))"
    by (simp_all only: fst_conv snd_conv reports_request_failed)
next
  assume a: "content \<noteq> []
       \<and> fetch (upsertNote_request c content
                  (if type = Undefined then Num (Fin 0) else type)) = Some resp"
  from upsertNote_reports [where fetch = fetch, OF a [THEN conjunct1] a [THEN conjunct2] assms]
  show "fst (upsertNote rt fetch c content type)
          = [upsertNote_request c content (if type = Undefined then Num (Fin 0) else type)]"
    and "reports resp (snd (upsertNote rt fetch c content type))"
    by (simp_all only: fst_conv snd_conv reports_request_failed)
next
  assume "fetch (updateNote_request c noteId updates) = Some resp"
  from updateNote_reports [where fetch = fetch, OF this assms]
  show "fst (updateNote fetch c noteId updates) = [updateNote_request c noteId updates]"
    and "reports resp (snd (updateNote fetch c noteId updates))"
    by (simp_all only: fst_conv snd_conv reports_update_failed)
next
  assume "fetch (deleteNote_request c noteId) = Some resp"
  from deleteNote_reports [where fetch = fetch, OF this assms]
  show "fst (deleteNote fetch c noteId) = [deleteNote_request c noteId]"
    and "reports resp (snd (deleteNote fetch c noteId))"
    by (simp_all only: fst_conv snd_conv reports_delete_failed)
next
  assume "fetch (updateNote_request c noteId [(''isArchived'', Bool True)]) = Some resp"
  from updateNote_reports [where fetch = fetch, OF this assms]
  show "fst (archiveNote fetch c noteId)
          = [updateNote_request c noteId [(''isArchived'', Bool True)]]"
    and "reports resp (snd (archiveNote fetch c noteId))"
    by (simp_all only: archiveNote_def fst_conv snd_conv reports_update_failed)
next
  assume "fetch (shareNote_request c sparams) = Some resp"
  from shareNote_reports [where fetch = fetch, OF this assms]
  show "fst (shareNote rt fetch c sparams) = [shareNote_request c sparams]"
    and "reports resp (snd (shareNote rt fetch c sparams))"
    by (simp_all only: fst_conv snd_conv reports_request_failed)
qed

lemma show_nat_404: "show_nat 404 = ''404''"
  by (simp add: show_nat.simps digit_char_def)

theorem non_2xx_surfaced_witness:
  "\<exists>msg. snd (deleteNote (test_fetch 404 ''note not found'') test_client (Fin 7)) = Inl (Error msg)
         \<and> sublist ''404'' msg \<and> sublist ''note not found'' msg"
proof -
  let ?fetch = "test_fetch 404 ''note not found''"
  let ?resp = "\<lparr>status = 404, resp_text = ''note not found''\<rparr>"
  have answer: "?fetch (deleteNote_request test_client (Fin 7)) = Some ?resp"
    by (simp add: test_fetch_def)
  have bad: "\<not> ok ?resp" by (simp add: ok_def)
  from non_2xx_surfaced [OF bad, where fetch = ?fetch and c = test_client and noteId = "Fin 7"]
  have "?fetch (deleteNote_request test_client (Fin 7)) = Some ?resp
          \<longrightarrow> fst (deleteNote ?fetch test_client (Fin 7)) = [deleteNote_request test_client (Fin 7)]
            \<and> reports ?resp (snd (deleteNote ?fetch test_client (Fin 7)))"
    by simp
  with answer have "reports ?resp (snd (deleteNote ?fetch test_client (Fin 7)))"
    by simp
  then show ?thesis
    by (auto simp: reports_def show_nat_404 split: sum.splits error.splits)
qed

section \<open>Clearing the recycle bin\<close>

text \<open>
  C10: when \<open>clearRecycleBin\<close> returns, its result is success; so the tool
  \<open>clear_blinko_recycle_bin\<close> never fails with \<open>Failed to clear recycle bin\<close>.
\<close>

theorem clearRecycleBin_success:
  "(\<forall>reqs success. clearRecycleBin fetch c = (reqs, Inr success) \<longrightarrow> success)
   \<and> (name request = ''clear_blinko_recycle_bin''
        \<longrightarrow> snd (handle rt fetch domain key request) \<noteq> Inl (Error ''Failed to clear recycle bin''))"
proof (intro conjI allI impI)
  fix reqs success
  assume "clearRecycleBin fetch c = (reqs, Inr success)"
  then show success
    by (auto simp: clearRecycleBin_def Let_def split: option.splits if_splits)
next
  assume n: "name request = ''clear_blinko_recycle_bin''"
  have relay: "snd (clear_case fetch b) \<noteq> Inl (Error ''Failed to clear recycle bin'')" for b
    by (auto simp: clear_case_def clearRecycleBin_def Let_def request_failed_def
        split: option.splits)
  show "snd (handle rt fetch domain key request) \<noteq> Inl (Error ''Failed to clear recycle bin'')"
  proof (cases "domain = [] \<or> key = []")
    case True
    then show ?thesis by (auto simp: handle_def)
  next
    case False
    with new_BlinkoClient_Inr [of domain key] obtain u where
      "new_BlinkoClient domain key = Inr \<lparr>baseUrl = u, apiKey = key\<rparr>" by auto
    with False n relay show ?thesis by (simp add: handle_def)
  qed
qed

theorem clearRecycleBin_success_witness:
  "snd (handle test_runtime (test_fetch 200 []) ''example.com'' ''k''
          \<lparr>name = ''clear_blinko_recycle_bin'', arguments = None\<rparr>)
     \<noteq> Inl (Error ''Failed to clear recycle bin'')"
  using clearRecycleBin_success [where request = "\<lparr>name = ''clear_blinko_recycle_bin'',
      arguments = None\<rparr>" and fetch = "test_fetch 200 []" and rt = test_runtime
      and domain = "''example.com''" and key = "''k''"]
  by simp

section \<open>Rendering a timestamp that does not parse\<close>

text \<open>
  C2 says that a timestamp which fails to parse is shown as the raw string. The handler
  means this, returning \<open>dateStr\<close> from its \<open>catch\<close>; but nothing in the \<open>try\<close> throws for
  such a string, and the block shows \<open>Invalid Date\<close> in place of the timestamp. The tool
  call succeeds.
\<close>

theorem unparsable_date_rendering:
  "(DateParse rt (n_createdAt note) = None
      \<longrightarrow> (\<exists>pre post. render_note rt note = TextBlock (pre @ ''Created: Invalid Date'' @ post)))
   \<and> (DateParse rt (n_updatedAt note) = None
      \<longrightarrow> (\<exists>pre. render_note rt note = TextBlock (pre @ ''Updated: Invalid Date'')))"
proof (intro conjI impI)
  assume "DateParse rt (n_createdAt note) = None"
  then have f: "formatDate rt (n_createdAt note) = ''Invalid Date''"
    by (simp add: formatDate_def Date_toLocaleString_def)
  show "\<exists>pre post. render_note rt note = TextBlock (pre @ ''Created: Invalid Date'' @ post)"
    apply (rule exI [of _ "''- [ID: '' @ num_to_string rt (n_id note) @ ''] [''
                @ getTypeDescription (n_type note) @ ''] '' @ n_content note
                @ [CHR 0x0A] @ ''  ''"])
    apply (rule exI [of _ "'' | Updated: '' @ formatDate rt (n_updatedAt note)"])
    apply (simp add: render_note_def f)
    done
next
  assume "DateParse rt (n_updatedAt note) = None"
  then have f: "formatDate rt (n_updatedAt note) = ''Invalid Date''"
    by (simp add: formatDate_def Date_toLocaleString_def)
  show "\<exists>pre. render_note rt note = TextBlock (pre @ ''Updated: Invalid Date'')"
    apply (rule exI [of _ "''- [ID: '' @ num_to_string rt (n_id note) @ ''] [''
                @ getTypeDescription (n_type note) @ ''] '' @ n_content note
                @ [CHR 0x0A] @ ''  Created: '' @ formatDate rt (n_createdAt note) @ '' | ''"])
    apply (simp add: render_note_def f)
    done
qed

theorem unparsable_date_rendering_witness:
  "n_createdAt test_note = ''not-a-date''
   \<and> DateParse test_runtime (n_createdAt test_note) = None
   \<and> (\<exists>pre post. render_note test_runtime test_note
                     = TextBlock (pre @ ''Created: Invalid Date'' @ post))"
  using unparsable_date_rendering [of test_runtime test_note]
  by (simp add: test_runtime_def test_note_def)

text \<open>The whole call, against a remote service that returns the one note.\<close>

lemma search_renders_Invalid_Date:
  "snd (handle test_runtime (test_fetch 200 ''[]'') ''example.com'' ''k''
          \<lparr>name = ''search_blinko_notes'',
           arguments = Some [(''searchText'', Str ''project'')]\<rparr>)
   = Inr [TextBlock ''Found 1 note(s):'',
          TextBlock (''- [ID: 42] [Todo Note] buy milk'' @ [CHR 0x0A]
                     @ ''  Created: Invalid Date | Updated: 1/1/1970, 12:00:00 AM'')]"
  by (simp add: handle_def new_BlinkoClient_def normalizeDomain_def strip_trailing_slash_def
      startsWith_def search_case_def searchNotes_def Let_def test_fetch_def ok_def
      js_Number_def js_Boolean_def num_truthy_def
      test_runtime_def test_note_def arg_def get_prop_def render_note_def formatDate_def
      Date_toLocaleString_def getTypeDescription_def num_to_string_def is_safe_int_def
      show_int_def show_nat.simps digit_char_def)

end
